theory Spec2Isabelle
  imports Main
begin

section \<open>Go standard-library values used by portwatch\<close>

text \<open>
  portwatch (\<^verbatim>\<open>main.go\<close>) is a TCP port monitor.  It formats integers, durations and
  timestamps with the Go standard library; the few library functions whose results the
  program stores or prints are written out here after the library's own algorithms.
  Go's \<^verbatim>\<open>int\<close> is modelled as \<open>int\<close>: the program only compares, copies and prints
  these values.
\<close>

subsection \<open>Errors\<close>

text \<open>
  A Go \<^verbatim>\<open>error\<close> value.  \<open>NetError tmo msg\<close> is an error that implements \<^verbatim>\<open>net.Error\<close>
  and whose \<^verbatim>\<open>Timeout()\<close> is \<open>tmo\<close>; \<open>PlainError msg\<close> is any other error.
  The value \<^verbatim>\<open>nil\<close> is \<open>None\<close> of \<open>goerror option\<close>.
\<close>

datatype goerror = NetError bool string | PlainError string

fun Error :: "goerror \<Rightarrow> string" where
  "Error (NetError tmo msg) = msg"
| "Error (PlainError msg) = msg"

text \<open>The test \<^verbatim>\<open>nerr, ok := err.(net.Error); ok && nerr.Timeout()\<close> of checkTarget.\<close>

fun isNetTimeout :: "goerror \<Rightarrow> bool" where
  "isNetTimeout (NetError tmo msg) = tmo"
| "isNetTimeout (PlainError msg) = False"

subsection \<open>Decimal formatting\<close>

definition digit :: "int \<Rightarrow> char" where
  "digit d = ''0123456789'' ! nat (d mod 10)"

text \<open>\<^verbatim>\<open>fmtInt\<close>: the decimal digits of an unsigned value (here a non-negative \<open>int\<close>),
  \<open>''0''\<close> for zero.\<close>

function fmtInt :: "int \<Rightarrow> string" where
  "fmtInt n = (if n < 10 then [digit n] else fmtInt (n div 10) @ [digit (n mod 10)])"
  by pat_completeness auto
termination
  by (relation "measure nat") auto

declare fmtInt.simps [simp del]

text \<open>\<^verbatim>\<open>strconv.Itoa\<close>, which is also what \<^verbatim>\<open>%d\<close> prints for an \<^verbatim>\<open>int\<close>.\<close>

definition Itoa :: "int \<Rightarrow> string" where
  "Itoa i = (if i < 0 then CHR ''-'' # fmtInt (- i) else fmtInt i)"

text \<open>
  \<^verbatim>\<open>appendInt\<close> of package time: a minus sign for a negative value, then the decimal
  digits padded with zeros on the left up to \<open>width\<close>.
\<close>

definition appendInt :: "int \<Rightarrow> nat \<Rightarrow> string" where
  "appendInt x width =
     (let ds = fmtInt \<bar>x\<bar>
      in (if x < 0 then ''-'' else '''') @ replicate (width - length ds) CHR ''0'' @ ds)"

subsection \<open>Durations\<close>

text \<open>
  \<^verbatim>\<open>time.Duration\<close> is a signed 64-bit count of nanoseconds.  It is modelled as an
  \<open>int\<close> within \<open>minDuration .. maxDuration\<close>, with the saturation that \<^verbatim>\<open>Time.Sub\<close>
  and \<^verbatim>\<open>Duration.Round\<close> perform on overflow written out.
\<close>

type_synonym Duration = int

definition minDuration :: Duration where
  "minDuration = - (2 ^ 63)"

definition maxDuration :: Duration where
  "maxDuration = 2 ^ 63 - 1"

definition time_Second :: Duration where
  "time_Second = 1000000000"

text \<open>
  \<^verbatim>\<open>Duration.Round(m)\<close>: the nearest multiple of \<open>m\<close>, halves away from zero, and the
  extreme duration when that multiple does not fit.  \<open>r\<close> is the magnitude of Go's
  truncated remainder \<^verbatim>\<open>d % m\<close>.
\<close>

definition Round :: "Duration \<Rightarrow> Duration \<Rightarrow> Duration" where
  "Round d m =
     (if m \<le> 0 then d
      else let r = \<bar>d\<bar> mod m in
        if d < 0 then
          (if r + r < m then d + r
           else if minDuration \<le> d - m + r then d - m + r
           else minDuration)
        else
          (if r + r < m then d - r
           else if d + m - r \<le> maxDuration then d + m - r
           else maxDuration))"

text \<open>
  \<^verbatim>\<open>fmtFrac\<close>: the low \<open>prec\<close> decimal digits of \<open>v\<close> without their trailing zeros,
  behind a decimal point when any digit remains; also returns \<open>v\<close> without those digits.
\<close>

primrec fmtFrac_loop :: "nat \<Rightarrow> int \<Rightarrow> bool \<Rightarrow> string \<Rightarrow> string \<times> bool \<times> int" where
  "fmtFrac_loop 0 v print buf = (buf, print, v)"
| "fmtFrac_loop (Suc i) v print buf =
     (let d = v mod 10;
          print' = (print \<or> d \<noteq> 0);
          buf' = (if print' then digit d # buf else buf)
      in fmtFrac_loop i (v div 10) print' buf')"

definition fmtFrac :: "int \<Rightarrow> nat \<Rightarrow> string \<times> int" where
  "fmtFrac v prec =
     (case fmtFrac_loop prec v False [] of
        (buf, print, v') \<Rightarrow> (if print then CHR ''.'' # buf else buf, v'))"

text \<open>\<^verbatim>\<open>Duration.String\<close>, for instance \<open>''1h2m3s''\<close>, \<open>''-5s''\<close>, \<open>''1.5ms''\<close>, \<open>''0s''\<close>.\<close>

definition Duration_String :: "Duration \<Rightarrow> string" where
  "Duration_String d =
     (let u = \<bar>d\<bar>;
          sign = (if d < 0 then ''-'' else '''')
      in if u < 1000000000 then
           (if u = 0 then ''0s''
            else if u < 1000 then
              (case fmtFrac u 0 of (frac, v) \<Rightarrow> sign @ fmtInt v @ frac @ ''ns'')
            else if u < 1000000 then
              (case fmtFrac u 3 of
                 (frac, v) \<Rightarrow> sign @ fmtInt v @ frac @ [CHR 0xC2, CHR 0xB5] @ ''s'')
            else
              (case fmtFrac u 6 of (frac, v) \<Rightarrow> sign @ fmtInt v @ frac @ ''ms''))
         else
           (case fmtFrac u 9 of
              (frac, secs) \<Rightarrow>
                let s = fmtInt (secs mod 60) @ frac @ ''s'';
                    mins = secs div 60
                in if mins > 0 then
                     (let ms = fmtInt (mins mod 60) @ ''m'' @ s;
                          hours = mins div 60
                      in if hours > 0 then sign @ fmtInt hours @ ''h'' @ ms
                         else sign @ ms)
                   else sign @ s))"

subsection \<open>Instants\<close>

text \<open>
  A \<^verbatim>\<open>time.Time\<close> in a location: \<open>abs_ns\<close> is the instant, in nanoseconds since Go's zero
  time (January 1, year 1, 00:00:00 UTC); the other fields are the wall-clock reading of
  that instant in the value's location, which is what \<^verbatim>\<open>Format\<close> prints.  The clock
  (\<^verbatim>\<open>time.Now().In(loc)\<close>, which carries no monotonic reading) supplies both.
\<close>

record Time =
  abs_ns :: int
  year :: int
  month :: int
  day :: int
  hour :: int
  minute :: int
  second :: int
  zone_offset :: int

text \<open>The zero value of \<^verbatim>\<open>time.Time\<close>, which a struct literal leaves in an omitted field.\<close>

definition zero_Time :: Time where
  "zero_Time = \<lparr>abs_ns = 0, year = 1, month = 1, day = 1, hour = 0, minute = 0,
                 second = 0, zone_offset = 0\<rparr>"

definition IsZero :: "Time \<Rightarrow> bool" where
  "IsZero t = (abs_ns t = 0)"

text \<open>\<^verbatim>\<open>t.Sub(u)\<close>: the difference of the instants, saturated to the range of a Duration.\<close>

definition Sub :: "Time \<Rightarrow> Time \<Rightarrow> Duration" where
  "Sub t u =
     (let d = abs_ns t - abs_ns u
      in if d < minDuration then minDuration
         else if maxDuration < d then maxDuration
         else d)"

text \<open>\<^verbatim>\<open>ts.Format("2006-01-02_15-04-05")\<close>.\<close>

definition Format_stamp :: "Time \<Rightarrow> string" where
  "Format_stamp t =
     appendInt (year t) 4 @ ''-'' @ appendInt (month t) 2 @ ''-'' @ appendInt (day t) 2
     @ ''_'' @ appendInt (hour t) 2 @ ''-'' @ appendInt (minute t) 2
     @ ''-'' @ appendInt (second t) 2"

text \<open>
  A wall-clock reading of the common era with a four-digit year, which is what the clock
  of a running monitor supplies.
\<close>

definition calendar :: "Time \<Rightarrow> bool" where
  "calendar ts =
     (0 \<le> year ts \<and> year ts \<le> 9999 \<and> 1 \<le> month ts \<and> month ts \<le> 12
      \<and> 1 \<le> day ts \<and> day ts \<le> 31 \<and> 0 \<le> hour ts \<and> hour ts \<le> 23
      \<and> 0 \<le> minute ts \<and> minute ts \<le> 59 \<and> 0 \<le> second ts \<and> second ts \<le> 59)"

text \<open>
  \<^verbatim>\<open>ts.Format(time.RFC3339)\<close>, layout \<^verbatim>\<open>2006-01-02T15:04:05Z07:00\<close>.  The zone is
  \<^verbatim>\<open>Z\<close> for the offset 0; otherwise the offset in seconds is divided by 60 the way Go
  divides (towards zero), the sign is the sign of that quotient, and its magnitude is
  printed as hours and minutes.
\<close>

definition Format_RFC3339 :: "Time \<Rightarrow> string" where
  "Format_RFC3339 t =
     appendInt (year t) 4 @ ''-'' @ appendInt (month t) 2 @ ''-'' @ appendInt (day t) 2
     @ ''T'' @ appendInt (hour t) 2 @ '':'' @ appendInt (minute t) 2
     @ '':'' @ appendInt (second t) 2
     @ (if zone_offset t = 0 then ''Z''
        else let zone = (if zone_offset t < 0 then - (\<bar>zone_offset t\<bar> div 60)
                         else zone_offset t div 60)
             in (if zone < 0 then ''-'' else ''+'')
                @ appendInt (\<bar>zone\<bar> div 60) 2 @ '':'' @ appendInt (\<bar>zone\<bar> mod 60) 2)"

section \<open>Data model of the monitor\<close>

text \<open>
  The structs of \<^verbatim>\<open>main.go\<close>.  Field names are the source's; the fields of
  \<^verbatim>\<open>TargetConfig\<close> and \<^verbatim>\<open>discordEmbedField\<close> carry a prefix because several structs
  share the names \<^verbatim>\<open>Name\<close>, \<^verbatim>\<open>IPv4\<close>, \<^verbatim>\<open>IPv6\<close> and \<^verbatim>\<open>DPort\<close>.
\<close>

record TargetConfig =
  tc_Name :: string
  tc_IPv4 :: string
  tc_IPv6 :: string
  tc_DPort :: int

record Config =
  Targets :: "TargetConfig list"
  IPv4 :: string
  IPv6 :: string
  DPort :: int
  Webhook :: string
  Host :: string
  Delay :: int
  Timeout :: int
  Timezone :: string

record discordEmbedField =
  field_Name :: string
  field_Value :: string
  field_Inline :: bool

record discordEmbed =
  Title :: string
  Description :: string
  Color :: int
  Fields :: "discordEmbedField list"
  Timestamp :: string

record discordWebhookPayload =
  Content :: string
  Embeds :: "discordEmbed list"

record TargetState =
  Name :: string
  IP :: string
  IPVersion :: string
  Network :: string
  Port :: int
  Down :: bool
  DownSince :: Time

section \<open>Effects\<close>

text \<open>
  A path built with \<^verbatim>\<open>filepath.Dir\<close> and \<^verbatim>\<open>filepath.Join\<close>, kept as the expression
  that builds it.
\<close>

datatype fpath = Dir string | Join fpath string

text \<open>An argument of a \<^verbatim>\<open>log.Printf\<close> call.\<close>

datatype logarg =
    ArgString string
  | ArgInt int
  | ArgError goerror
  | ArgDuration Duration
  | ArgPath fpath

text \<open>
  What one monitor cycle does to the outside world, in the order it does it.
  \<^verbatim>\<open>tcpPing\<close>, \<^verbatim>\<open>runMTR\<close> and \<^verbatim>\<open>sendToDiscord\<close> only wrap a network dial, a child
  process and an HTTP request: each call is recorded with its arguments and its result
  is read from the \<open>world\<close> below.  \<open>LogPrintf\<close> records the format string and the
  arguments of a \<^verbatim>\<open>log.Printf\<close> call.
\<close>

datatype event =
    TcpPing string int int string
  | LogPrintf string "logarg list"
  | RunMTR string
  | MkdirAll fpath
  | WriteFile fpath string
  | SendToDiscord string discordWebhookPayload
  | Sleep Duration

text \<open>The answers of the outside world during one call of checkTarget.\<close>

record world =
  clock :: Time
  tcpPing_result :: "goerror option"
  runMTR_result :: "string \<times> goerror option"
  os_Executable :: "goerror + string"
  os_MkdirAll :: "goerror option"
  os_WriteFile :: "goerror option"
  os_Hostname :: "goerror + string"
  sendToDiscord_result :: "goerror option"

section \<open>Trace files\<close>

text \<open>The file name that saveMTRToFile composes (lines 184 to 193).\<close>

definition mtrFilename :: "Time \<Rightarrow> TargetState \<Rightarrow> string" where
  "mtrFilename ts t =
     (let name = (if Name t = '''' then ''target'' else Name t)
      in Format_stamp ts @ ''_'' @ name @ ''_'' @ IPVersion t @ ''_'' @ Itoa (Port t)
         @ ''.txt'')"

definition saveMTRToFile :: "string \<Rightarrow> Time \<Rightarrow> TargetState \<Rightarrow> world \<Rightarrow> event list" where
  "saveMTRToFile mtrOut ts t w =
     (case os_Executable w of
        Inl err \<Rightarrow>
          [LogPrintf ''cannot determine executable path for mtr dir: %v'' [ArgError err]]
      | Inr exePath \<Rightarrow>
          let dir = Join (Dir exePath) ''mtr'' in
          (case os_MkdirAll w of
             Some err \<Rightarrow>
               [MkdirAll dir,
                LogPrintf ''cannot create mtr dir %s: %v'' [ArgPath dir, ArgError err]]
           | None \<Rightarrow>
               let path = Join dir (mtrFilename ts t) in
               (case os_WriteFile w of
                  Some err \<Rightarrow>
                    [MkdirAll dir, WriteFile path mtrOut,
                     LogPrintf ''cannot write mtr file %s: %v'' [ArgPath path, ArgError err]]
                | None \<Rightarrow> [MkdirAll dir, WriteFile path mtrOut])))"

section \<open>Alerts\<close>

definition getHostname :: "Config \<Rightarrow> world \<Rightarrow> string" where
  "getHostname cfg w =
     (if Host cfg \<noteq> '''' then Host cfg
      else case os_Hostname w of Inl err \<Rightarrow> ''unknown'' | Inr hn \<Rightarrow> hn)"

definition mkField :: "string \<Rightarrow> string \<Rightarrow> bool \<Rightarrow> discordEmbedField" where
  "mkField n v i = \<lparr>field_Name = n, field_Value = v, field_Inline = i\<rparr>"

definition sendDownAlert ::
  "Config \<Rightarrow> TargetState \<Rightarrow> goerror \<Rightarrow> string \<Rightarrow> Time \<Rightarrow> world \<Rightarrow> event list" where
  "sendDownAlert cfg t err mtrOut ts w =
     (let host = getHostname cfg w;
          targetName = (if Name t = '''' then ''-'' else Name t);
          fields =
            [mkField ''Target'' targetName True,
             mkField ''Hostname'' host True,
             mkField ''IP'' (IP t) True,
             mkField ''IP Version'' (IPVersion t) True,
             mkField ''Port'' (Itoa (Port t)) True,
             mkField ''Delay (s)'' (Itoa (Delay cfg)) True,
             mkField ''Timeout (s)'' (Itoa (Timeout cfg)) True,
             mkField ''Status'' ''DOWN'' True,
             mkField ''Error'' (Error err) False];
          desc = (if mtrOut \<noteq> ''''
                  then [CHR 0x60, CHR 0x60, CHR 0x60] @ ''text'' @ [CHR 0x0A] @ mtrOut
                       @ [CHR 0x0A] @ [CHR 0x60, CHR 0x60, CHR 0x60]
                  else '''');
          embed = \<lparr>Title = ''Port monitor alert (DOWN)'', Description = desc,
                   Color = 0xFF0000, Fields = fields, Timestamp = Format_RFC3339 ts\<rparr>;
          payload = \<lparr>Content = '''', Embeds = [embed]\<rparr>
      in SendToDiscord (Webhook cfg) payload #
         (case sendToDiscord_result w of
            Some derr \<Rightarrow> [LogPrintf ''error sending DOWN alert to discord: %v'' [ArgError derr]]
          | None \<Rightarrow> []))"

definition sendUpAlert ::
  "Config \<Rightarrow> TargetState \<Rightarrow> Time \<Rightarrow> Time \<Rightarrow> world \<Rightarrow> event list" where
  "sendUpAlert cfg t downSince ts w =
     (let host = getHostname cfg w;
          dur = Round (Sub ts downSince) time_Second;
          targetName = (if Name t = '''' then ''-'' else Name t);
          fields =
            [mkField ''Target'' targetName True,
             mkField ''Hostname'' host True,
             mkField ''IP'' (IP t) True,
             mkField ''IP Version'' (IPVersion t) True,
             mkField ''Port'' (Itoa (Port t)) True,
             mkField ''Delay (s)'' (Itoa (Delay cfg)) True,
             mkField ''Timeout (s)'' (Itoa (Timeout cfg)) True,
             mkField ''Status'' ''UP'' True,
             mkField ''Downtime'' (Duration_String dur) False];
          embed = \<lparr>Title = ''Port monitor recovery (UP)'', Description = '''',
                   Color = 0x00FF00, Fields = fields, Timestamp = Format_RFC3339 ts\<rparr>;
          payload = \<lparr>Content = '''', Embeds = [embed]\<rparr>
      in SendToDiscord (Webhook cfg) payload #
         (case sendToDiscord_result w of
            Some derr \<Rightarrow> [LogPrintf ''error sending UP alert to discord: %v'' [ArgError derr]]
          | None \<Rightarrow> []))"

section \<open>The per-target check\<close>

text \<open>
  The trace step of checkTarget (lines 348 to 362): the text handed to the alert and the
  effects of obtaining it.
\<close>

definition captureTrace ::
  "goerror \<Rightarrow> Time \<Rightarrow> TargetState \<Rightarrow> world \<Rightarrow> string \<times> event list" where
  "captureTrace err now t w =
     (if isNetTimeout err then
        (case runMTR_result w of
           (mtrText, Some mtrErr) \<Rightarrow>
             let mtrOut = ''mtr error: '' @ Error mtrErr @ [CHR 0x0A, CHR 0x0A] @ mtrText
             in (mtrOut,
                 [RunMTR (IP t),
                  LogPrintf ''mtr error for %s: %v'' [ArgString (IP t), ArgError mtrErr]]
                 @ (if mtrOut \<noteq> '''' then saveMTRToFile mtrOut now t w else []))
         | (mtrText, None) \<Rightarrow>
             (mtrText,
              RunMTR (IP t) # (if mtrText \<noteq> '''' then saveMTRToFile mtrText now t w else [])))
      else (''no mtr (non-timeout error)'', []))"

text \<open>
  checkTarget mutates the state behind its pointer argument; the model returns the new
  state together with the effects.  A nil pointer is \<open>None\<close>.
\<close>

definition checkTarget ::
  "Config \<Rightarrow> TargetState option \<Rightarrow> world \<Rightarrow> TargetState option \<times> event list" where
  "checkTarget cfg tp w =
     (case tp of
        None \<Rightarrow> (None, [])
      | Some t \<Rightarrow>
          if IP t = '''' then (Some t, [])
          else
            let now = clock w;
                ping = TcpPing (IP t) (Port t) (Timeout cfg) (Network t)
            in (case tcpPing_result w of
                  None \<Rightarrow>
                    if Down t then
                      (Some (t\<lparr>Down := False\<rparr>),
                       [ping,
                        LogPrintf ''UP %s %s %s:%d after %s''
                          [ArgString (IPVersion t), ArgString (Name t), ArgString (IP t),
                           ArgInt (Port t),
                           ArgDuration (Round (Sub now (DownSince t)) time_Second)]]
                       @ sendUpAlert cfg t (DownSince t) now w)
                    else (Some t, [ping])
                | Some err \<Rightarrow>
                    if \<not> Down t then
                      (let t' = t\<lparr>Down := True, DownSince := now\<rparr>
                       in case captureTrace err now t' w of
                            (mtrOut, traceEvents) \<Rightarrow>
                              (Some t',
                               [ping,
                                LogPrintf ''DOWN %s %s %s:%d error=%v''
                                  [ArgString (IPVersion t'), ArgString (Name t'),
                                   ArgString (IP t'), ArgInt (Port t'), ArgError err]]
                               @ traceEvents
                               @ sendDownAlert cfg t' err mtrOut now w))
                    else (Some t, [ping])))"

text \<open>
  monitorTarget loops forever: check, then sleep.  The model runs as many rounds as it
  is given worlds, one world per round.  The sleep is
  \<^verbatim>\<open>time.Duration(cfg.Delay) * time.Second\<close>, a 64-bit product.
\<close>

definition wrap64 :: "int \<Rightarrow> int" where
  "wrap64 x = (x + 2 ^ 63) mod 2 ^ 64 - 2 ^ 63"

fun monitorTarget ::
  "Config \<Rightarrow> TargetState option \<Rightarrow> world list \<Rightarrow> TargetState option \<times> event list" where
  "monitorTarget cfg tp [] = (tp, [])"
| "monitorTarget cfg tp (w # ws) =
     (case checkTarget cfg tp w of
        (tp', evs) \<Rightarrow>
          (case monitorTarget cfg tp' ws of
             (tp'', rest) \<Rightarrow> (tp'', evs @ [Sleep (wrap64 (Delay cfg * time_Second))] @ rest)))"

section \<open>Observations on effect lists\<close>

text \<open>A notification is a call of sendToDiscord; a trace capture is a call of runMTR.\<close>

fun isNotification :: "event \<Rightarrow> bool" where
  "isNotification (SendToDiscord url payload) = True"
| "isNotification e = False"

fun isTrace :: "event \<Rightarrow> bool" where
  "isTrace (RunMTR ip) = True"
| "isTrace e = False"

fun isLog :: "event \<Rightarrow> bool" where
  "isLog (LogPrintf fmt args) = True"
| "isLog e = False"

text \<open>
  The state that main builds for a target (lines 441 to 447 and 451 to 457): the struct
  literal leaves \<^verbatim>\<open>Down\<close> and \<^verbatim>\<open>DownSince\<close> at their zero values.
\<close>

definition newTargetState :: "string \<Rightarrow> string \<Rightarrow> string \<Rightarrow> string \<Rightarrow> int \<Rightarrow> TargetState" where
  "newTargetState name ip ipVersion network port =
     \<lparr>Name = name, IP = ip, IPVersion = ipVersion, Network = network, Port = port,
      Down = False, DownSince = zero_Time\<rparr>"

section \<open>The rotating log writer\<close>

text \<open>
  The file system as the writer sees it: the contents of the files that exist, by path.
  The log file is reached only through the writer, so an open handle of the writer always
  refers to the file named \<^verbatim>\<open>path\<close>, and appending through the handle is appending to
  that file (the handle that rotate opens has no \<^verbatim>\<open>O_APPEND\<close>, but it starts at offset 0
  of an empty file and is the only writer, so its offset is always the end of the file).
\<close>

type_synonym filesystem = "string \<rightharpoonup> string"

text \<open>A non-nil \<^verbatim>\<open>*os.File\<close>: usable, or already closed.  The field \<^verbatim>\<open>file\<close> of the
  writer is \<open>file'\<close> here, \<open>file\<close> being a keyword of Isabelle.\<close>

datatype osfile = Open | Closed

record rotatingWriter =
  path :: string
  maxSize :: int
  file' :: "osfile option"

text \<open>
  Which system calls fail during one call of the writer, and with what error:
  \<open>open_err\<close> for the \<^verbatim>\<open>os.OpenFile\<close> of open, \<open>stat_err\<close> for \<^verbatim>\<open>w.file.Stat\<close>,
  \<open>rename_err\<close> for \<^verbatim>\<open>os.Rename\<close>, \<open>trunc_err\<close> for the \<^verbatim>\<open>os.OpenFile\<close> of rotate,
  and \<open>write_err\<close> for \<^verbatim>\<open>w.file.Write\<close>, with the number of bytes written before the
  error.
\<close>

record faults =
  open_err :: "goerror option"
  stat_err :: "goerror option"
  rename_err :: "goerror option"
  trunc_err :: "goerror option"
  write_err :: "(nat \<times> goerror) option"

definition no_faults :: faults where
  "no_faults = \<lparr>open_err = None, stat_err = None, rename_err = None, trunc_err = None,
                 write_err = None\<rparr>"

text \<open>
  The error of the operation \<open>op\<close> on a closed \<^verbatim>\<open>*os.File\<close> that was opened under
  \<open>name\<close>: a \<^verbatim>\<open>*fs.PathError\<close> around \<^verbatim>\<open>os.ErrClosed\<close>, whose text is for instance
  \<^verbatim>\<open>write portwatch.log: file already closed\<close>.
\<close>

definition ErrClosed :: "string \<Rightarrow> string \<Rightarrow> goerror" where
  "ErrClosed op name = PlainError (op @ '' '' @ name @ '': file already closed'')"

definition contents :: "filesystem \<Rightarrow> string \<Rightarrow> string" where
  "contents fs p = (case fs p of None \<Rightarrow> '''' | Some c \<Rightarrow> c)"

text \<open>\<^verbatim>\<open>w.file.Close()\<close> on a handle that may be nil; the result of Close is ignored.\<close>

definition closeFile :: "osfile option \<Rightarrow> osfile option" where
  "closeFile f = (case f of None \<Rightarrow> None | Some h \<Rightarrow> Some Closed)"

text \<open>
  The method \<^verbatim>\<open>open\<close> (here \<open>open_writer\<close>): close the old handle, then
  \<^verbatim>\<open>O_CREATE|O_WRONLY|O_APPEND\<close>, which creates an empty file when there is none and
  keeps an existing one.
\<close>

definition open_writer ::
  "rotatingWriter \<Rightarrow> filesystem \<Rightarrow> faults \<Rightarrow> goerror option \<times> rotatingWriter \<times> filesystem" where
  "open_writer w fs fl =
     (let w1 = w\<lparr>file' := closeFile (file' w)\<rparr>
      in case open_err fl of
           Some err \<Rightarrow> (Some err, w1, fs)
         | None \<Rightarrow>
             (None, w1\<lparr>file' := Some Open\<rparr>,
              (if fs (path w) = None then fs(path w \<mapsto> '''') else fs)))"

text \<open>
  rotate: close the handle, rename the file to \<^verbatim>\<open>path + ".1"\<close> discarding the result of
  the rename (\<^verbatim>\<open>_ = os.Rename(...)\<close>), then \<^verbatim>\<open>O_CREATE|O_WRONLY|O_TRUNC\<close>.  A rename
  replaces the target; it fails when the fault says so or when there is no file to rename.
\<close>

definition rotate ::
  "rotatingWriter \<Rightarrow> filesystem \<Rightarrow> faults \<Rightarrow> goerror option \<times> rotatingWriter \<times> filesystem" where
  "rotate w fs fl =
     (let w1 = w\<lparr>file' := closeFile (file' w)\<rparr>;
          fs1 = (case (rename_err fl, fs (path w)) of
                   (None, Some c) \<Rightarrow> (fs(path w := None))(path w @ ''.1'' \<mapsto> c)
                 | _ \<Rightarrow> fs)
      in case trunc_err fl of
           Some err \<Rightarrow> (Some err, w1, fs1)
         | None \<Rightarrow> (None, w1\<lparr>file' := Some Open\<rparr>, fs1(path w \<mapsto> '''')))"

text \<open>\<^verbatim>\<open>w.file.Write(p)\<close> on the (non-nil) handle of the writer.\<close>

definition file_Write ::
  "rotatingWriter \<Rightarrow> filesystem \<Rightarrow> faults \<Rightarrow> string \<Rightarrow> (int \<times> goerror option) \<times> filesystem" where
  "file_Write w fs fl p =
     (if file' w \<noteq> Some Open then ((0, Some (ErrClosed ''write'' (path w))), fs)
      else case write_err fl of
             Some (n, err) \<Rightarrow>
               ((int (min n (length p)), Some err),
                fs(path w \<mapsto> contents fs (path w) @ take n p))
           | None \<Rightarrow>
               ((int (length p), None), fs(path w \<mapsto> contents fs (path w) @ p)))"

text \<open>\<^verbatim>\<open>w.file.Stat()\<close>: the size of the file, or an error.\<close>

definition file_Stat :: "rotatingWriter \<Rightarrow> filesystem \<Rightarrow> faults \<Rightarrow> goerror + int" where
  "file_Stat w fs fl =
     (if file' w \<noteq> Some Open then Inl (ErrClosed ''stat'' (path w))
      else case stat_err fl of
             Some err \<Rightarrow> Inl err
           | None \<Rightarrow> Inr (int (length (contents fs (path w)))))"

text \<open>
  The second half of Write (lines 117 to 123), once the handle is not nil.  The sum
  \<^verbatim>\<open>fi.Size()+int64(len(p))\<close> is taken in \<open>int\<close>: a file size and a slice length are
  far below \<open>2 ^ 62\<close>, so the 64-bit sum does not wrap.
\<close>

definition Write_opened ::
  "rotatingWriter \<Rightarrow> filesystem \<Rightarrow> faults \<Rightarrow> string \<Rightarrow>
     (int \<times> goerror option) \<times> rotatingWriter \<times> filesystem" where
  "Write_opened w fs fl p =
     (case file_Stat w fs fl of
        Inr sz \<Rightarrow>
          if sz + int (length p) > maxSize w then
            (case rotate w fs fl of
               (Some err, w', fs') \<Rightarrow> ((0, Some err), w', fs')
             | (None, w', fs') \<Rightarrow>
                 (case file_Write w' fs' fl p of (r, fs'') \<Rightarrow> (r, w', fs'')))
          else (case file_Write w fs fl p of (r, fs') \<Rightarrow> (r, w, fs'))
      | Inl err \<Rightarrow> (case file_Write w fs fl p of (r, fs') \<Rightarrow> (r, w, fs')))"

definition Write ::
  "rotatingWriter \<Rightarrow> filesystem \<Rightarrow> faults \<Rightarrow> string \<Rightarrow>
     (int \<times> goerror option) \<times> rotatingWriter \<times> filesystem" where
  "Write w fs fl p =
     (if file' w = None then
        (case open_writer w fs fl of
           (Some err, w', fs') \<Rightarrow> ((0, Some err), w', fs')
         | (None, w', fs') \<Rightarrow> Write_opened w' fs' fl p)
      else Write_opened w fs fl p)"

definition newRotatingWriter ::
  "string \<Rightarrow> int \<Rightarrow> filesystem \<Rightarrow> faults \<Rightarrow> (goerror + rotatingWriter) \<times> filesystem" where
  "newRotatingWriter pth mx fs fl =
     (case open_writer \<lparr>path = pth, maxSize = mx, file' = None\<rparr> fs fl of
        (Some err, w, fs') \<Rightarrow> (Inl err, fs')
      | (None, w, fs') \<Rightarrow> (Inr w, fs'))"

text \<open>A series of Write calls on the same writer, each with its own faults.\<close>

fun Write_all ::
  "rotatingWriter \<Rightarrow> filesystem \<Rightarrow> (faults \<times> string) list \<Rightarrow> rotatingWriter \<times> filesystem" where
  "Write_all w fs [] = (w, fs)"
| "Write_all w fs ((fl, p) # calls) =
     (case Write w fs fl p of (r, w', fs') \<Rightarrow> Write_all w' fs' calls)"

section \<open>Startup\<close>

text \<open>
  What main finds when it starts: the command line, the file system and the failures of
  the calls that open the log file, what loading the configuration file at a path yields
  (\<^verbatim>\<open>loadConfig\<close>: the file read and decoded as JSON into a \<^verbatim>\<open>Config\<close>, or an error),
  and which time zone names \<^verbatim>\<open>time.LoadLocation\<close> rejects.
\<close>

record startup_world =
  os_Args :: "string list"
  files :: filesystem
  log_faults :: faults
  loadConfig :: "string \<Rightarrow> goerror + Config"
  time_LoadLocation :: "string \<Rightarrow> goerror option"

text \<open>
  How main ends: \<^verbatim>\<open>log.Fatal\<close> and \<^verbatim>\<open>log.Fatalf\<close> print their message and leave the
  process with exit status 1; otherwise one monitorTarget loop runs for each state with
  the final configuration, after the log line that announces them.
\<close>

datatype outcome =
    Exited int string "logarg list"
  | Monitoring Config "TargetState list" "event list"

definition log_Fatalf :: "string \<Rightarrow> logarg list \<Rightarrow> outcome" where
  "log_Fatalf fmt args = Exited 1 fmt args"

definition maxLogSize :: int where
  "maxLogSize = 50 * 1024 * 1024"

text \<open>The legacy fallback of main (lines 401 to 410).\<close>

definition legacyFallback :: "Config \<Rightarrow> Config" where
  "legacyFallback cfg =
     (if length (Targets cfg) = 0 \<and> (IPv4 cfg \<noteq> '''' \<or> IPv6 cfg \<noteq> '''' \<or> DPort cfg \<noteq> 0)
      then cfg\<lparr>Targets := [\<lparr>tc_Name = ''default'', tc_IPv4 = IPv4 cfg, tc_IPv6 = IPv6 cfg,
                                tc_DPort = DPort cfg\<rparr>]\<rparr>
      else cfg)"

text \<open>The defaults of main (lines 415 to 423).\<close>

definition applyDefaults :: "Config \<Rightarrow> Config" where
  "applyDefaults cfg =
     (let cfg1 = (if Delay cfg \<le> 0 then cfg\<lparr>Delay := 30\<rparr> else cfg);
          cfg2 = (if Timeout cfg1 \<le> 0 then cfg1\<lparr>Timeout := 5\<rparr> else cfg1)
      in if Timezone cfg2 = '''' then cfg2\<lparr>Timezone := ''Europe/Berlin''\<rparr> else cfg2)"

text \<open>The loop of main that builds the states (lines 435 to 460).\<close>

fun targetStates :: "TargetConfig list \<Rightarrow> TargetState list" where
  "targetStates [] = []"
| "targetStates (tc # tcs) =
     (if tc_DPort tc \<le> 0 then []
      else (if tc_IPv4 tc \<noteq> ''''
            then [newTargetState (tc_Name tc) (tc_IPv4 tc) ''IPv4'' ''tcp4'' (tc_DPort tc)]
            else [])
           @ (if tc_IPv6 tc \<noteq> ''''
              then [newTargetState (tc_Name tc) (tc_IPv6 tc) ''IPv6'' ''tcp6'' (tc_DPort tc)]
              else []))
     @ targetStates tcs"

definition cfgPath :: "startup_world \<Rightarrow> string" where
  "cfgPath sw = (if length (os_Args sw) > 1 then os_Args sw ! 1 else ''config.json'')"

definition main :: "startup_world \<Rightarrow> outcome" where
  "main sw =
     (case newRotatingWriter ''portwatch.log'' maxLogSize (files sw) (log_faults sw) of
        (Inl err, fs) \<Rightarrow> log_Fatalf ''cannot set up log file: %v'' [ArgError err]
      | (Inr rw, fs) \<Rightarrow>
          (case loadConfig sw (cfgPath sw) of
             Inl err \<Rightarrow> log_Fatalf ''cannot load config: %v'' [ArgError err]
           | Inr cfg0 \<Rightarrow>
               let cfg1 = legacyFallback cfg0 in
               if Webhook cfg1 = '''' then log_Fatalf ''webhook missing in config'' []
               else
                 let cfg = applyDefaults cfg1 in
                 (case time_LoadLocation sw (Timezone cfg) of
                    Some err \<Rightarrow>
                      log_Fatalf ''cannot load timezone %q: %v''
                        [ArgString (Timezone cfg), ArgError err]
                  | None \<Rightarrow>
                      if length (Targets cfg) = 0
                      then log_Fatalf ''no targets configured'' []
                      else
                        let states = targetStates (Targets cfg) in
                        if length states = 0
                        then log_Fatalf ''no valid targets (missing IPs or ports)'' []
                        else Monitoring cfg states
                               [LogPrintf
                                  ''starting port monitor: targets=%d delay=%ds timeout=%ds timezone=%s''
                                  [ArgInt (int (length states)), ArgInt (Delay cfg),
                                   ArgInt (Timeout cfg), ArgString (Timezone cfg)]])))"

section \<open>Sample values\<close>

text \<open>Concrete configurations, states and worlds on which the theorems below are run.\<close>

definition ex_cfg :: Config where
  "ex_cfg = \<lparr>Targets = [], IPv4 = '''', IPv6 = '''', DPort = 0,
             Webhook = ''https://discord.example/api/webhooks/1'', Host = ''probe-1'',
             Delay = 30, Timeout = 5, Timezone = ''Europe/Berlin''\<rparr>"

definition ex_clock :: Time where
  "ex_clock = \<lparr>abs_ns = 63900000000000000000, year = 2025, month = 3, day = 9,
               hour = 4, minute = 5, second = 6, zone_offset = 3600\<rparr>"

definition ex_later :: Time where
  "ex_later = \<lparr>abs_ns = 63900000061500000000, year = 2025, month = 3, day = 9,
               hour = 4, minute = 6, second = 7, zone_offset = 3600\<rparr>"

definition ex_up :: TargetState where
  "ex_up = newTargetState ''web'' ''10.0.0.1'' ''IPv4'' ''tcp4'' 443"

definition ex_down :: TargetState where
  "ex_down = ex_up\<lparr>Down := True, DownSince := ex_clock\<rparr>"

definition ex_recovered :: TargetState where
  "ex_recovered = ex_up\<lparr>DownSince := ex_clock\<rparr>"

definition ex_world_timeout :: world where
  "ex_world_timeout =
     \<lparr>clock = ex_clock, tcpPing_result = Some (NetError True ''dial tcp4: i/o timeout''),
      runMTR_result = (''HOST: probe-1'', None), os_Executable = Inr ''/opt/portwatch/portwatch'',
      os_MkdirAll = None, os_WriteFile = None, os_Hostname = Inr ''probe-1'',
      sendToDiscord_result = None\<rparr>"

definition ex_world_refused :: world where
  "ex_world_refused =
     ex_world_timeout\<lparr>tcpPing_result := Some (NetError False ''connection refused'')\<rparr>"

definition ex_world_ok :: world where
  "ex_world_ok = ex_world_timeout\<lparr>clock := ex_later, tcpPing_result := None\<rparr>"



text \<open>
  A legacy single-target configuration file without interval, timeout and zone
  (\<^verbatim>\<open>{"ipv4": "1.1.1.1", "dport": 443, "webhook": ..., "delay": -3}\<close>), one with no
  target at all, and the start of the program with each of them.
\<close>

definition ex_legacy_cfg :: Config where
  "ex_legacy_cfg = \<lparr>Targets = [], IPv4 = ''1.1.1.1'', IPv6 = '''', DPort = 443,
                    Webhook = ''https://discord.example/api/webhooks/1'', Host = '''',
                    Delay = - 3, Timeout = 0, Timezone = ''''\<rparr>"

definition ex_empty_cfg :: Config where
  "ex_empty_cfg = \<lparr>Targets = [], IPv4 = '''', IPv6 = '''', DPort = 0,
                   Webhook = ''https://discord.example/api/webhooks/1'', Host = '''',
                   Delay = 30, Timeout = 5, Timezone = ''Europe/Berlin''\<rparr>"

definition ex_startup :: "Config \<Rightarrow> startup_world" where
  "ex_startup cfg =
     \<lparr>os_Args = [''portwatch''], files = Map.empty, log_faults = no_faults,
      loadConfig = (\<lambda>p. if p = ''config.json'' then Inr cfg
                         else Inl (PlainError ''no such file'')),
      time_LoadLocation = (\<lambda>z. None)\<rparr>"

text \<open>
  The log writer as main creates it, over a log file that is ten bytes short of the
  50 MiB threshold and an older backup; a write of eleven bytes crosses the threshold.
\<close>

definition ex_writer :: rotatingWriter where
  "ex_writer = \<lparr>path = ''portwatch.log'', maxSize = maxLogSize, file' = Some Open\<rparr>"

definition ex_log :: string where
  "ex_log = replicate 52428790 CHR ''x''"

definition ex_fs :: filesystem where
  "ex_fs = [''portwatch.log'' \<mapsto> ex_log, ''portwatch.log.1'' \<mapsto> ''older lines'']"

definition ex_rename_fails :: faults where
  "ex_rename_fails = no_faults\<lparr>rename_err := Some (PlainError ''rename: permission denied'')\<rparr>"

definition ex_stat_fails :: faults where
  "ex_stat_fails = no_faults\<lparr>stat_err := Some (PlainError ''stat: input/output error'')\<rparr>"

text \<open>
  Two entries of a targets list with the same name and port and different addresses, and
  the states main builds for them.
\<close>

definition ex_twins :: "TargetConfig list" where
  "ex_twins =
     [\<lparr>tc_Name = ''web'', tc_IPv4 = ''10.0.0.1'', tc_IPv6 = '''', tc_DPort = 443\<rparr>,
      \<lparr>tc_Name = ''web'', tc_IPv4 = ''10.0.0.2'', tc_IPv6 = '''', tc_DPort = 443\<rparr>]"

definition ex_twin :: TargetState where
  "ex_twin = newTargetState ''web'' ''10.0.0.2'' ''IPv4'' ''tcp4'' 443"

section \<open>Rounding\<close>




section \<open>The branches of checkTarget\<close>

lemma checkTarget_cases [case_names no_ip stay_up recover stay_down go_down]:
  obtains "IP t = ''''"
  | "IP t \<noteq> ''''" "tcpPing_result w = None" "\<not> Down t"
  | "IP t \<noteq> ''''" "tcpPing_result w = None" "Down t"
  | err where "IP t \<noteq> ''''" "tcpPing_result w = Some err" "Down t"
  | err where "IP t \<noteq> ''''" "tcpPing_result w = Some err" "\<not> Down t"
  by (cases "tcpPing_result w") auto

lemma checkTarget_nil: "checkTarget cfg None w = (None, [])"
  by (simp add: checkTarget_def)

lemma checkTarget_no_ip: "IP t = '''' \<Longrightarrow> checkTarget cfg (Some t) w = (Some t, [])"
  by (simp add: checkTarget_def)

lemma checkTarget_stay_up:
  "IP t \<noteq> '''' \<Longrightarrow> tcpPing_result w = None \<Longrightarrow> \<not> Down t \<Longrightarrow>
   checkTarget cfg (Some t) w = (Some t, [TcpPing (IP t) (Port t) (Timeout cfg) (Network t)])"
  by (simp add: checkTarget_def)

lemma checkTarget_stay_down:
  "IP t \<noteq> '''' \<Longrightarrow> tcpPing_result w = Some err \<Longrightarrow> Down t \<Longrightarrow>
   checkTarget cfg (Some t) w = (Some t, [TcpPing (IP t) (Port t) (Timeout cfg) (Network t)])"
  by (simp add: checkTarget_def)

lemma checkTarget_recover:
  "IP t \<noteq> '''' \<Longrightarrow> tcpPing_result w = None \<Longrightarrow> Down t \<Longrightarrow>
   checkTarget cfg (Some t) w =
     (Some (t\<lparr>Down := False\<rparr>),
      [TcpPing (IP t) (Port t) (Timeout cfg) (Network t),
       LogPrintf ''UP %s %s %s:%d after %s''
         [ArgString (IPVersion t), ArgString (Name t), ArgString (IP t), ArgInt (Port t),
          ArgDuration (Round (Sub (clock w) (DownSince t)) time_Second)]]
      @ sendUpAlert cfg t (DownSince t) (clock w) w)"
  by (simp add: checkTarget_def Let_def)

lemma checkTarget_go_down:
  "IP t \<noteq> '''' \<Longrightarrow> tcpPing_result w = Some err \<Longrightarrow> \<not> Down t \<Longrightarrow>
   checkTarget cfg (Some t) w =
     (Some (t\<lparr>Down := True, DownSince := clock w\<rparr>),
      [TcpPing (IP t) (Port t) (Timeout cfg) (Network t),
       LogPrintf ''DOWN %s %s %s:%d error=%v''
         [ArgString (IPVersion t), ArgString (Name t), ArgString (IP t), ArgInt (Port t),
          ArgError err]]
      @ snd (captureTrace err (clock w) (t\<lparr>Down := True, DownSince := clock w\<rparr>) w)
      @ sendDownAlert cfg (t\<lparr>Down := True, DownSince := clock w\<rparr>) err
          (fst (captureTrace err (clock w) (t\<lparr>Down := True, DownSince := clock w\<rparr>) w))
          (clock w) w)"
  by (simp add: checkTarget_def Let_def split: prod.splits)

lemma checkTarget_Some: "\<exists>t' evs. checkTarget cfg (Some t) w = (Some t', evs)"
  by (cases rule: checkTarget_cases [where t = t and w = w])
     (simp_all add: checkTarget_no_ip checkTarget_stay_up checkTarget_recover
        checkTarget_stay_down checkTarget_go_down)

section \<open>Which effects each helper has\<close>

lemma saveMTRToFile_no_trace: "filter isTrace (saveMTRToFile out ts t w) = []"
  by (simp add: saveMTRToFile_def Let_def split: sum.splits option.splits)

lemma saveMTRToFile_no_notification: "filter isNotification (saveMTRToFile out ts t w) = []"
  by (simp add: saveMTRToFile_def Let_def split: sum.splits option.splits)

lemma sendDownAlert_no_trace: "filter isTrace (sendDownAlert cfg t err out ts w) = []"
  by (simp add: sendDownAlert_def Let_def split: option.splits)

lemma sendUpAlert_no_trace: "filter isTrace (sendUpAlert cfg t ds ts w) = []"
  by (simp add: sendUpAlert_def Let_def split: option.splits)

lemma sendDownAlert_one_notification:
  "length (filter isNotification (sendDownAlert cfg t err out ts w)) = 1"
  by (simp add: sendDownAlert_def Let_def split: option.splits)

lemma sendUpAlert_one_notification:
  "length (filter isNotification (sendUpAlert cfg t ds ts w)) = 1"
  by (simp add: sendUpAlert_def Let_def split: option.splits)

lemma captureTrace_traces:
  "filter isTrace (snd (captureTrace err now t w)) =
     (if isNetTimeout err then [RunMTR (IP t)] else [])"
  by (simp add: captureTrace_def Let_def saveMTRToFile_no_trace
        split: prod.splits option.splits)

lemma captureTrace_no_notification:
  "filter isNotification (snd (captureTrace err now t w)) = []"
  by (simp add: captureTrace_def Let_def saveMTRToFile_no_notification
        split: prod.splits option.splits)

lemma captureTrace_placeholder:
  "\<not> isNetTimeout err \<Longrightarrow> captureTrace err now t w = (''no mtr (non-timeout error)'', [])"
  by (simp add: captureTrace_def)

lemma checkTarget_notifications_le_1:
  "length (filter isNotification (snd (checkTarget cfg tp w))) \<le> 1"
proof (cases tp)
  case None
  then show ?thesis by (simp add: checkTarget_nil)
next
  case (Some t)
  show ?thesis unfolding Some
    by (cases rule: checkTarget_cases [where t = t and w = w])
       (simp_all add: checkTarget_no_ip checkTarget_stay_up checkTarget_recover
          checkTarget_stay_down checkTarget_go_down captureTrace_no_notification
          sendDownAlert_one_notification sendUpAlert_one_notification)
qed

section \<open>Claims about the target state machine\<close>

lemma monitorTarget_fst_Nil: "fst (monitorTarget cfg tp []) = tp"
  by simp

lemma monitorTarget_fst_Cons:
  "fst (monitorTarget cfg tp (w # ws)) = fst (monitorTarget cfg (fst (checkTarget cfg tp w)) ws)"
  by (simp split: prod.splits)

lemma checkTarget_keeps_inv:
  assumes "\<not> IsZero (clock w)"
      and "Down t \<longrightarrow> \<not> IsZero (DownSince t)"
      and "checkTarget cfg (Some t) w = (Some t', evs)"
  shows "Down t' \<longrightarrow> \<not> IsZero (DownSince t')"
  using assms
  by (cases rule: checkTarget_cases [where t = t and w = w])
     (auto simp add: checkTarget_no_ip checkTarget_stay_up checkTarget_recover
        checkTarget_stay_down checkTarget_go_down)

lemma monitorTarget_keeps_inv:
  assumes "\<forall>w\<in>set ws. \<not> IsZero (clock w)"
      and "Down t \<longrightarrow> \<not> IsZero (DownSince t)"
      and "monitorTarget cfg (Some t) ws = (Some t', evs)"
  shows "Down t' \<longrightarrow> \<not> IsZero (DownSince t')"
  using assms
proof (induction ws arbitrary: t evs)
  case Nil
  then show ?case by simp
next
  case (Cons w ws)
  obtain t1 ev1 where step: "checkTarget cfg (Some t) w = (Some t1, ev1)"
    using checkTarget_Some by blast
  obtain tp2 ev2 where rest: "monitorTarget cfg (Some t1) ws = (tp2, ev2)"
    by (cases "monitorTarget cfg (Some t1) ws") auto
  have tp2: "tp2 = Some t'"
    using Cons.prems(3) step rest by simp
  have inv1: "Down t1 \<longrightarrow> \<not> IsZero (DownSince t1)"
    using checkTarget_keeps_inv [OF _ Cons.prems(2) step] Cons.prems(1) by simp
  show ?case
    using Cons.IH [OF _ inv1, of ev2] Cons.prems(1) rest tp2 by simp
qed

lemma checkTarget_DownSince:
  assumes "checkTarget cfg (Some t) w = (Some t1, ev1)"
  shows "DownSince t1 = (if \<not> Down t \<and> Down t1 then clock w else DownSince t)"
  using assms
  by (cases rule: checkTarget_cases [where t = t and w = w])
     (auto simp add: checkTarget_no_ip checkTarget_stay_up checkTarget_recover
        checkTarget_stay_down checkTarget_go_down)

lemma checkTarget_ignores_DownSince:
  assumes "\<not> (Down t \<and> tcpPing_result w = None)"
  shows "snd (checkTarget cfg (Some (t\<lparr>DownSince := x\<rparr>)) w) = snd (checkTarget cfg (Some t) w)"
proof (cases rule: checkTarget_cases [where t = t and w = w])
  case no_ip
  then show ?thesis by (simp add: checkTarget_no_ip)
next
  case stay_up
  then show ?thesis by (simp add: checkTarget_stay_up)
next
  case recover
  then show ?thesis using assms by simp
next
  case (stay_down err)
  then show ?thesis by (simp add: checkTarget_stay_down)
next
  case (go_down err)
  then show ?thesis by (simp add: checkTarget_go_down)
qed

text \<open>
  C1 (as amended).  Along every run of the monitor loop whose clock readings are not
  the zero time, a state that is Down has \<^verbatim>\<open>DownSince\<close> set.  One step assigns
  \<^verbatim>\<open>DownSince\<close> only when it takes the target from Up to Down, and then to that step's
  clock reading; every other step leaves it as it was, so it is not cleared on recovery.
  Only a recovery step (Down, probe succeeded) reads it: the effects of any other step
  are the same whatever \<^verbatim>\<open>DownSince\<close> holds.
\<close>

theorem DownSince_set_while_down:
  assumes "\<forall>w\<in>set ws. \<not> IsZero (clock w)"
      and "Down t \<longrightarrow> \<not> IsZero (DownSince t)"
      and "monitorTarget cfg (Some t) ws = (Some t', evs)"
  shows "(Down t' \<longrightarrow> \<not> IsZero (DownSince t'))
       \<and> (\<forall>s w s1 ev1. checkTarget cfg (Some s) w = (Some s1, ev1) \<longrightarrow>
            DownSince s1 = (if \<not> Down s \<and> Down s1 then clock w else DownSince s))
       \<and> (\<forall>s w x. \<not> (Down s \<and> tcpPing_result w = None) \<longrightarrow>
            snd (checkTarget cfg (Some (s\<lparr>DownSince := x\<rparr>)) w)
              = snd (checkTarget cfg (Some s) w))"
  using monitorTarget_keeps_inv [OF assms] checkTarget_DownSince checkTarget_ignores_DownSince
  by blast

theorem DownSince_set_while_down_witness:
  "fst (monitorTarget ex_cfg (Some ex_up) [ex_world_timeout]) = Some ex_down
   \<and> Down ex_down \<and> \<not> IsZero (DownSince ex_down)"
proof -
  have "fst (checkTarget ex_cfg (Some ex_up) ex_world_timeout) = Some ex_down"
    by (simp add: checkTarget_go_down ex_up_def ex_down_def ex_world_timeout_def
          newTargetState_def)
  then have f: "fst (monitorTarget ex_cfg (Some ex_up) [ex_world_timeout]) = Some ex_down"
    by (simp only: monitorTarget_fst_Cons monitorTarget_fst_Nil)
  have run: "monitorTarget ex_cfg (Some ex_up) [ex_world_timeout]
               = (Some ex_down, snd (monitorTarget ex_cfg (Some ex_up) [ex_world_timeout]))"
    using f by (metis prod.collapse)
  have clk: "\<forall>w\<in>set [ex_world_timeout]. \<not> IsZero (clock w)"
    by (simp add: ex_world_timeout_def ex_clock_def IsZero_def)
  have inv: "Down ex_up \<longrightarrow> \<not> IsZero (DownSince ex_up)"
    by (simp add: ex_up_def newTargetState_def)
  have d: "Down ex_down"
    by (simp add: ex_down_def)
  from DownSince_set_while_down [OF clk inv run] d f show ?thesis by blast
qed

text \<open>
  C1 as stated fails: after one timed-out probe and one successful probe the target is
  Up while \<^verbatim>\<open>DownSince\<close> still holds the time of the outage.
\<close>

theorem DownSince_iff_Down_counterexample:
  "fst (monitorTarget ex_cfg (Some ex_up) [ex_world_timeout, ex_world_ok]) = Some ex_recovered
   \<and> \<not> (\<not> IsZero (DownSince ex_recovered) \<longleftrightarrow> Down ex_recovered)"
proof -
  have s1: "fst (checkTarget ex_cfg (Some ex_up) ex_world_timeout) = Some ex_down"
    by (simp add: checkTarget_go_down ex_up_def ex_down_def ex_world_timeout_def
          newTargetState_def)
  have s2: "fst (checkTarget ex_cfg (Some ex_down) ex_world_ok) = Some ex_recovered"
    by (simp add: checkTarget_recover ex_up_def ex_down_def ex_recovered_def
          ex_world_ok_def ex_world_timeout_def newTargetState_def)
  have "fst (monitorTarget ex_cfg (Some ex_up) [ex_world_timeout, ex_world_ok])
          = Some ex_recovered"
    by (simp only: monitorTarget_fst_Cons monitorTarget_fst_Nil s1 s2)
  moreover have "\<not> Down ex_recovered" "\<not> IsZero (DownSince ex_recovered)"
    by (simp_all add: ex_recovered_def ex_up_def newTargetState_def ex_clock_def IsZero_def)
  ultimately show ?thesis by simp
qed

lemma checkTarget_self:
  assumes "(\<not> Down t \<and> tcpPing_result w = None) \<or> (Down t \<and> tcpPing_result w \<noteq> None)"
  shows "checkTarget cfg (Some t) w =
           (Some t, if IP t = '''' then []
                    else [TcpPing (IP t) (Port t) (Timeout cfg) (Network t)])"
  using assms
  by (cases rule: checkTarget_cases [where t = t and w = w])
     (auto simp add: checkTarget_no_ip checkTarget_stay_up checkTarget_stay_down)

lemma checkTarget_status:
  assumes "checkTarget cfg (Some t) w = (Some t1, ev)"
  shows "IP t1 = IP t \<and> (IP t \<noteq> '''' \<longrightarrow> Down t1 = (tcpPing_result w \<noteq> None))
         \<and> (IP t = '''' \<longrightarrow> t1 = t)"
  using assms
  by (cases rule: checkTarget_cases [where t = t and w = w])
     (auto simp add: checkTarget_no_ip checkTarget_stay_up checkTarget_recover
        checkTarget_stay_down checkTarget_go_down)

text \<open>
  C10.  A step of checkTarget that takes a target from Down to Up changes the \<^verbatim>\<open>Down\<close>
  flag and nothing else: every other field, \<^verbatim>\<open>DownSince\<close> included, keeps its value.
\<close>

theorem recovery_changes_only_Down:
  assumes "checkTarget cfg (Some t) w = (Some t', evs)"
      and "Down t"
      and "\<not> Down t'"
  shows "t' = t\<lparr>Down := False\<rparr> \<and> Name t' = Name t \<and> IP t' = IP t
         \<and> IPVersion t' = IPVersion t \<and> Network t' = Network t \<and> Port t' = Port t
         \<and> DownSince t' = DownSince t"
  using assms
  by (cases rule: checkTarget_cases [where t = t and w = w])
     (auto simp add: checkTarget_no_ip checkTarget_stay_up checkTarget_recover
        checkTarget_stay_down checkTarget_go_down)

theorem recovery_changes_only_Down_witness:
  "fst (checkTarget ex_cfg (Some ex_down) ex_world_ok) = Some ex_recovered
   \<and> Down ex_down \<and> \<not> Down ex_recovered
   \<and> ex_recovered = ex_down\<lparr>Down := False\<rparr>
   \<and> DownSince ex_recovered = DownSince ex_down \<and> DownSince ex_recovered = ex_clock"
proof -
  have f: "fst (checkTarget ex_cfg (Some ex_down) ex_world_ok) = Some ex_recovered"
    by (simp add: checkTarget_recover ex_up_def ex_down_def ex_recovered_def
          ex_world_ok_def ex_world_timeout_def newTargetState_def)
  have s: "checkTarget ex_cfg (Some ex_down) ex_world_ok
             = (Some ex_recovered, snd (checkTarget ex_cfg (Some ex_down) ex_world_ok))"
    using f by (metis prod.collapse)
  have d: "Down ex_down"
    by (simp add: ex_down_def)
  have u: "\<not> Down ex_recovered"
    by (simp add: ex_recovered_def ex_up_def newTargetState_def)
  have c: "DownSince ex_recovered = ex_clock"
    by (simp add: ex_recovered_def)
  from recovery_changes_only_Down [OF s d u] f d u c show ?thesis by simp
qed

text \<open>
  C5.  A self-transition (probe succeeds while Up, or fails while Down) leaves the state
  record as it is and has no effect besides the probe: no notification, no trace, no log
  line.  Hence when two consecutive rounds see the same probe outcome, the second round
  changes nothing and notifies nobody, and the two rounds together send at most one
  notification.
\<close>

theorem self_transition_silent:
  "((\<not> Down t \<and> tcpPing_result w = None) \<or> (Down t \<and> tcpPing_result w \<noteq> None) \<longrightarrow>
      checkTarget cfg (Some t) w =
        (Some t, if IP t = '''' then []
                 else [TcpPing (IP t) (Port t) (Timeout cfg) (Network t)]))
   \<and> ((tcpPing_result w1 = None) = (tcpPing_result w2 = None) \<longrightarrow>
      checkTarget cfg (Some t) w1 = (tp1, ev1) \<longrightarrow>
      checkTarget cfg tp1 w2 = (tp2, ev2) \<longrightarrow>
        tp2 = tp1 \<and> filter isNotification ev2 = [] \<and> filter isTrace ev2 = []
        \<and> filter isLog ev2 = [] \<and> length (filter isNotification (ev1 @ ev2)) \<le> 1)"
proof (intro conjI impI)
  assume "(\<not> Down t \<and> tcpPing_result w = None) \<or> (Down t \<and> tcpPing_result w \<noteq> None)"
  then show "checkTarget cfg (Some t) w =
        (Some t, if IP t = '''' then []
                 else [TcpPing (IP t) (Port t) (Timeout cfg) (Network t)])"
    by (rule checkTarget_self)
next
  assume same: "(tcpPing_result w1 = None) = (tcpPing_result w2 = None)"
     and s1: "checkTarget cfg (Some t) w1 = (tp1, ev1)"
     and s2: "checkTarget cfg tp1 w2 = (tp2, ev2)"
  obtain t1 where t1: "tp1 = Some t1"
    using checkTarget_Some [of cfg t w1] s1 by auto
  have st: "IP t1 = IP t" "IP t \<noteq> '''' \<longrightarrow> Down t1 = (tcpPing_result w1 \<noteq> None)"
    using checkTarget_status [of cfg t w1 t1 ev1] s1 t1 by simp_all
  have second: "checkTarget cfg (Some t1) w2 =
                  (Some t1, if IP t1 = '''' then []
                            else [TcpPing (IP t1) (Port t1) (Timeout cfg) (Network t1)])"
  proof (cases "IP t = ''''")
    case True
    then show ?thesis using st by (simp add: checkTarget_no_ip)
  next
    case False
    then have "(\<not> Down t1 \<and> tcpPing_result w2 = None) \<or> (Down t1 \<and> tcpPing_result w2 \<noteq> None)"
      using st same by auto
    then show ?thesis by (rule checkTarget_self)
  qed
  then have r: "tp2 = tp1" "filter isNotification ev2 = []" "filter isTrace ev2 = []"
    "filter isLog ev2 = []"
    using s2 t1 by auto
  have "length (filter isNotification ev1) \<le> 1"
    using checkTarget_notifications_le_1 [of cfg "Some t" w1] s1 by simp
  then have "length (filter isNotification (ev1 @ ev2)) \<le> 1"
    using r by simp
  then show "tp2 = tp1" "filter isNotification ev2 = []" "filter isTrace ev2 = []"
    "filter isLog ev2 = []" "length (filter isNotification (ev1 @ ev2)) \<le> 1"
    using r by simp_all
qed

theorem self_transition_silent_witness:
  "checkTarget ex_cfg (Some ex_up) ex_world_ok
     = (Some ex_up, [TcpPing ''10.0.0.1'' 443 5 ''tcp4''])
   \<and> fst (checkTarget ex_cfg (Some ex_up) ex_world_timeout) = Some ex_down
   \<and> fst (checkTarget ex_cfg (Some ex_down) ex_world_refused) = Some ex_down
   \<and> filter isNotification (snd (checkTarget ex_cfg (Some ex_down) ex_world_refused)) = []
   \<and> filter isTrace (snd (checkTarget ex_cfg (Some ex_down) ex_world_refused)) = []"
proof -
  have h1: "(\<not> Down ex_up \<and> tcpPing_result ex_world_ok = None)
            \<or> (Down ex_up \<and> tcpPing_result ex_world_ok \<noteq> None)"
    by (simp add: ex_up_def newTargetState_def ex_world_ok_def)
  have a: "checkTarget ex_cfg (Some ex_up) ex_world_ok
             = (Some ex_up, [TcpPing ''10.0.0.1'' 443 5 ''tcp4''])"
    using self_transition_silent [where t = ex_up and w = ex_world_ok and cfg = ex_cfg] h1
    by (simp add: ex_up_def newTargetState_def ex_cfg_def)
  have f1: "fst (checkTarget ex_cfg (Some ex_up) ex_world_timeout) = Some ex_down"
    by (simp add: checkTarget_go_down ex_up_def ex_down_def ex_world_timeout_def
          newTargetState_def)
  have s1: "checkTarget ex_cfg (Some ex_up) ex_world_timeout
              = (Some ex_down, snd (checkTarget ex_cfg (Some ex_up) ex_world_timeout))"
    using f1 by (metis prod.collapse)
  have s2: "checkTarget ex_cfg (Some ex_down) ex_world_refused
              = (fst (checkTarget ex_cfg (Some ex_down) ex_world_refused),
                 snd (checkTarget ex_cfg (Some ex_down) ex_world_refused))"
    by simp
  have same: "(tcpPing_result ex_world_timeout = None) = (tcpPing_result ex_world_refused = None)"
    by (simp add: ex_world_timeout_def ex_world_refused_def)
  note step2 = self_transition_silent [where cfg = ex_cfg and t = ex_up
        and ?w1.0 = ex_world_timeout and ?w2.0 = ex_world_refused and ?tp1.0 = "Some ex_down"
        and ?ev1.0 = "snd (checkTarget ex_cfg (Some ex_up) ex_world_timeout)"
        and ?tp2.0 = "fst (checkTarget ex_cfg (Some ex_down) ex_world_refused)"
        and ?ev2.0 = "snd (checkTarget ex_cfg (Some ex_down) ex_world_refused)",
        THEN conjunct2, rule_format, OF same s1 s2]
  have b: "fst (checkTarget ex_cfg (Some ex_down) ex_world_refused) = Some ex_down"
    "filter isNotification (snd (checkTarget ex_cfg (Some ex_down) ex_world_refused)) = []"
    "filter isTrace (snd (checkTarget ex_cfg (Some ex_down) ex_world_refused)) = []"
    using step2 by simp_all
  from a f1 b show ?thesis by (intro conjI)
qed

lemma sendDownAlert_shape:
  "\<exists>payload embed rest.
     sendDownAlert cfg t err out ts w = SendToDiscord (Webhook cfg) payload # rest
     \<and> Embeds payload = [embed]
     \<and> Title embed = ''Port monitor alert (DOWN)''
     \<and> Description embed =
         (if out \<noteq> ''''
          then [CHR 0x60, CHR 0x60, CHR 0x60] @ ''text'' @ [CHR 0x0A] @ out
               @ [CHR 0x0A] @ [CHR 0x60, CHR 0x60, CHR 0x60]
          else '''')
     \<and> list_all isLog rest"
  by (simp add: sendDownAlert_def Let_def split: option.splits)

lemma checkTarget_trace_only_timeout:
  assumes "filter isTrace (snd (checkTarget cfg tp w)) \<noteq> []"
  shows "\<exists>e. tcpPing_result w = Some e \<and> isNetTimeout e"
proof (cases tp)
  case None
  then show ?thesis using assms by (simp add: checkTarget_nil)
next
  case (Some t)
  show ?thesis
    using assms unfolding Some
    by (cases rule: checkTarget_cases [where t = t and w = w])
       (auto simp add: checkTarget_no_ip checkTarget_stay_up checkTarget_recover
          checkTarget_stay_down checkTarget_go_down sendUpAlert_no_trace
          sendDownAlert_no_trace captureTrace_traces split: if_splits)
qed

text \<open>
  C4.  When a failed probe takes a target from Up to Down, runMTR is called (once) if
  the error is a network timeout and not at all otherwise; for a non-timeout error the
  effects are the probe, the log line and the notification, whose embed description is
  the fenced text \<^verbatim>\<open>no mtr (non-timeout error)\<close>.  In any step at all, a call of runMTR
  implies that the probe failed with a timeout.
\<close>

theorem trace_iff_timeout:
  assumes "\<not> Down t" and "IP t \<noteq> ''''" and "tcpPing_result w = Some err"
  shows "filter isTrace (snd (checkTarget cfg (Some t) w))
           = (if isNetTimeout err then [RunMTR (IP t)] else [])
       \<and> (\<not> isNetTimeout err \<longrightarrow>
            (\<exists>payload embed rest.
               snd (checkTarget cfg (Some t) w)
                 = [TcpPing (IP t) (Port t) (Timeout cfg) (Network t),
                    LogPrintf ''DOWN %s %s %s:%d error=%v''
                      [ArgString (IPVersion t), ArgString (Name t), ArgString (IP t),
                       ArgInt (Port t), ArgError err],
                    SendToDiscord (Webhook cfg) payload] @ rest
               \<and> Embeds payload = [embed]
               \<and> Description embed =
                   [CHR 0x60, CHR 0x60, CHR 0x60] @ ''text'' @ [CHR 0x0A]
                   @ ''no mtr (non-timeout error)''
                   @ [CHR 0x0A] @ [CHR 0x60, CHR 0x60, CHR 0x60]
               \<and> list_all isLog rest))
       \<and> (\<forall>tp' w'. filter isTrace (snd (checkTarget cfg tp' w')) \<noteq> [] \<longrightarrow>
            (\<exists>e. tcpPing_result w' = Some e \<and> isNetTimeout e))"
proof (intro conjI impI allI)
  show "filter isTrace (snd (checkTarget cfg (Some t) w))
          = (if isNetTimeout err then [RunMTR (IP t)] else [])"
    using assms
    by (simp add: checkTarget_go_down captureTrace_traces sendDownAlert_no_trace)
next
  assume nt: "\<not> isNetTimeout err"
  obtain payload embed rest where
    sh: "sendDownAlert cfg (t\<lparr>Down := True, DownSince := clock w\<rparr>) err
           ''no mtr (non-timeout error)'' (clock w) w
           = SendToDiscord (Webhook cfg) payload # rest"
        "Embeds payload = [embed]"
        "Description embed =
           (if ''no mtr (non-timeout error)'' \<noteq> ''''
            then [CHR 0x60, CHR 0x60, CHR 0x60] @ ''text'' @ [CHR 0x0A]
                 @ ''no mtr (non-timeout error)''
                 @ [CHR 0x0A] @ [CHR 0x60, CHR 0x60, CHR 0x60]
            else '''')"
        "list_all isLog rest"
    using sendDownAlert_shape by blast
  have "snd (checkTarget cfg (Some t) w)
          = [TcpPing (IP t) (Port t) (Timeout cfg) (Network t),
             LogPrintf ''DOWN %s %s %s:%d error=%v''
               [ArgString (IPVersion t), ArgString (Name t), ArgString (IP t),
                ArgInt (Port t), ArgError err],
             SendToDiscord (Webhook cfg) payload] @ rest"
    using assms nt sh(1) by (simp add: checkTarget_go_down captureTrace_placeholder)
  moreover have "Description embed =
                   [CHR 0x60, CHR 0x60, CHR 0x60] @ ''text'' @ [CHR 0x0A]
                   @ ''no mtr (non-timeout error)''
                   @ [CHR 0x0A] @ [CHR 0x60, CHR 0x60, CHR 0x60]"
    using sh(3) by simp
  ultimately show "\<exists>payload embed rest.
               snd (checkTarget cfg (Some t) w)
                 = [TcpPing (IP t) (Port t) (Timeout cfg) (Network t),
                    LogPrintf ''DOWN %s %s %s:%d error=%v''
                      [ArgString (IPVersion t), ArgString (Name t), ArgString (IP t),
                       ArgInt (Port t), ArgError err],
                    SendToDiscord (Webhook cfg) payload] @ rest
               \<and> Embeds payload = [embed]
               \<and> Description embed =
                   [CHR 0x60, CHR 0x60, CHR 0x60] @ ''text'' @ [CHR 0x0A]
                   @ ''no mtr (non-timeout error)''
                   @ [CHR 0x0A] @ [CHR 0x60, CHR 0x60, CHR 0x60]
               \<and> list_all isLog rest"
    using sh(2,4) by blast
next
  fix tp' w'
  assume "filter isTrace (snd (checkTarget cfg tp' w')) \<noteq> []"
  then show "\<exists>e. tcpPing_result w' = Some e \<and> isNetTimeout e"
    by (rule checkTarget_trace_only_timeout)
qed

theorem trace_iff_timeout_witness:
  "filter isTrace (snd (checkTarget ex_cfg (Some ex_up) ex_world_timeout)) = [RunMTR ''10.0.0.1'']
   \<and> filter isTrace (snd (checkTarget ex_cfg (Some ex_up) ex_world_refused)) = []"
proof -
  have up: "\<not> Down ex_up" and ip: "IP ex_up \<noteq> ''''" and ipv: "IP ex_up = ''10.0.0.1''"
    by (simp_all add: ex_up_def newTargetState_def)
  have p1: "tcpPing_result ex_world_timeout = Some (NetError True ''dial tcp4: i/o timeout'')"
    by (simp add: ex_world_timeout_def)
  have p2: "tcpPing_result ex_world_refused = Some (NetError False ''connection refused'')"
    by (simp add: ex_world_refused_def ex_world_timeout_def)
  from trace_iff_timeout [OF up ip p1, of ex_cfg] trace_iff_timeout [OF up ip p2, of ex_cfg] ipv
  show ?thesis by simp
qed










section \<open>Claims about startup\<close>

lemma ex_startup_fields:
  "os_Args (ex_startup c) = [''portwatch'']"
  "files (ex_startup c) = Map.empty"
  "log_faults (ex_startup c) = no_faults"
  "loadConfig (ex_startup c) p
     = (if p = ''config.json'' then Inr c else Inl (PlainError ''no such file''))"
  "time_LoadLocation (ex_startup c) z = None"
  by (simp_all add: ex_startup_def)

lemma main_log_failed:
  "open_err (log_faults sw) = Some e \<Longrightarrow>
   main sw = Exited 1 ''cannot set up log file: %v'' [ArgError e]"
  by (simp add: main_def newRotatingWriter_def open_writer_def log_Fatalf_def)

lemma main_log_opened:
  "open_err (log_faults sw) = None \<Longrightarrow>
   main sw =
     (case loadConfig sw (cfgPath sw) of
        Inl err \<Rightarrow> log_Fatalf ''cannot load config: %v'' [ArgError err]
      | Inr cfg0 \<Rightarrow>
          let cfg1 = legacyFallback cfg0 in
          if Webhook cfg1 = '''' then log_Fatalf ''webhook missing in config'' []
          else
            let cfg = applyDefaults cfg1 in
            (case time_LoadLocation sw (Timezone cfg) of
               Some err \<Rightarrow>
                 log_Fatalf ''cannot load timezone %q: %v''
                   [ArgString (Timezone cfg), ArgError err]
             | None \<Rightarrow>
                 if length (Targets cfg) = 0
                 then log_Fatalf ''no targets configured'' []
                 else
                   let states = targetStates (Targets cfg) in
                   if length states = 0
                   then log_Fatalf ''no valid targets (missing IPs or ports)'' []
                   else Monitoring cfg states
                          [LogPrintf
                             ''starting port monitor: targets=%d delay=%ds timeout=%ds timezone=%s''
                             [ArgInt (int (length states)), ArgInt (Delay cfg),
                              ArgInt (Timeout cfg), ArgString (Timezone cfg)]]))"
  by (simp add: main_def newRotatingWriter_def open_writer_def)

lemma legacyFallback_fields:
  "Delay (legacyFallback cfg) = Delay cfg \<and> Timeout (legacyFallback cfg) = Timeout cfg
   \<and> Timezone (legacyFallback cfg) = Timezone cfg \<and> Webhook (legacyFallback cfg) = Webhook cfg"
  by (simp add: legacyFallback_def)

lemma applyDefaults_fields:
  "Delay (applyDefaults cfg) = (if Delay cfg \<le> 0 then 30 else Delay cfg)
   \<and> Timeout (applyDefaults cfg) = (if Timeout cfg \<le> 0 then 5 else Timeout cfg)
   \<and> Timezone (applyDefaults cfg)
       = (if Timezone cfg = '''' then ''Europe/Berlin'' else Timezone cfg)
   \<and> Targets (applyDefaults cfg) = Targets cfg \<and> Webhook (applyDefaults cfg) = Webhook cfg
   \<and> Host (applyDefaults cfg) = Host cfg \<and> IPv4 (applyDefaults cfg) = IPv4 cfg
   \<and> IPv6 (applyDefaults cfg) = IPv6 cfg \<and> DPort (applyDefaults cfg) = DPort cfg"
  by (simp add: applyDefaults_def Let_def)

lemma main_Monitoring:
  assumes "main sw = Monitoring cfg states evs"
  shows "\<exists>cfg0. loadConfig sw (cfgPath sw) = Inr cfg0
           \<and> cfg = applyDefaults (legacyFallback cfg0)
           \<and> states = targetStates (Targets cfg) \<and> states \<noteq> []
           \<and> Webhook cfg \<noteq> '''' \<and> time_LoadLocation sw (Timezone cfg) = None"
  using assms
  by (auto simp add: main_def log_Fatalf_def Let_def applyDefaults_fields
        split: prod.splits sum.splits option.splits if_splits)

lemma main_no_states:
  assumes "loadConfig sw (cfgPath sw) = Inr cfg0"
      and "targetStates (Targets (legacyFallback cfg0)) = []"
  shows "\<exists>fmt args. main sw = Exited 1 fmt args"
  using assms
  by (simp add: main_def log_Fatalf_def Let_def applyDefaults_fields
        split: prod.splits sum.splits option.splits)

lemma legacyFallback_nothing:
  assumes "Targets cfg0 = []" and "IPv4 cfg0 = ''''" and "IPv6 cfg0 = ''''" and "DPort cfg0 = 0"
  shows "legacyFallback cfg0 = cfg0"
  using assms by (simp add: legacyFallback_def)

text \<open>
  C6.  The defaults that main applies replace an interval that is zero or negative (an
  absent one decodes to zero) by 30, a timeout that is zero or negative by 5 and an empty
  zone name by \<^verbatim>\<open>Europe/Berlin\<close>, and change nothing else; whenever main gets as far as
  starting the monitor loops, the configuration they run with is the loaded one after the
  legacy fallback and these defaults.
\<close>

theorem startup_defaults:
  "Delay (applyDefaults cfg) = (if Delay cfg \<le> 0 then 30 else Delay cfg)
   \<and> Timeout (applyDefaults cfg) = (if Timeout cfg \<le> 0 then 5 else Timeout cfg)
   \<and> Timezone (applyDefaults cfg)
       = (if Timezone cfg = '''' then ''Europe/Berlin'' else Timezone cfg)
   \<and> applyDefaults cfg
       = cfg\<lparr>Delay := Delay (applyDefaults cfg), Timeout := Timeout (applyDefaults cfg),
             Timezone := Timezone (applyDefaults cfg)\<rparr>
   \<and> (\<forall>sw cfg' states evs.
         main sw = Monitoring cfg' states evs \<longrightarrow>
           (\<exists>cfg0. loadConfig sw (cfgPath sw) = Inr cfg0
              \<and> cfg' = applyDefaults (legacyFallback cfg0)
              \<and> Delay cfg' = (if Delay cfg0 \<le> 0 then 30 else Delay cfg0)
              \<and> Timeout cfg' = (if Timeout cfg0 \<le> 0 then 5 else Timeout cfg0)
              \<and> Timezone cfg'
                  = (if Timezone cfg0 = '''' then ''Europe/Berlin'' else Timezone cfg0)))"
proof (intro conjI allI impI)
  show "applyDefaults cfg
       = cfg\<lparr>Delay := Delay (applyDefaults cfg), Timeout := Timeout (applyDefaults cfg),
             Timezone := Timezone (applyDefaults cfg)\<rparr>"
    by (simp add: applyDefaults_def Let_def)
next
  fix sw cfg' states evs
  assume "main sw = Monitoring cfg' states evs"
  then obtain cfg0 where c: "loadConfig sw (cfgPath sw) = Inr cfg0"
      "cfg' = applyDefaults (legacyFallback cfg0)"
    using main_Monitoring by blast
  then show "\<exists>cfg0. loadConfig sw (cfgPath sw) = Inr cfg0
              \<and> cfg' = applyDefaults (legacyFallback cfg0)
              \<and> Delay cfg' = (if Delay cfg0 \<le> 0 then 30 else Delay cfg0)
              \<and> Timeout cfg' = (if Timeout cfg0 \<le> 0 then 5 else Timeout cfg0)
              \<and> Timezone cfg'
                  = (if Timezone cfg0 = '''' then ''Europe/Berlin'' else Timezone cfg0)"
    by (simp add: applyDefaults_fields legacyFallback_fields)
qed (simp_all add: applyDefaults_fields)

theorem startup_defaults_witness:
  "main (ex_startup ex_legacy_cfg)
     = Monitoring (applyDefaults (legacyFallback ex_legacy_cfg))
         [newTargetState ''default'' ''1.1.1.1'' ''IPv4'' ''tcp4'' 443]
         [LogPrintf ''starting port monitor: targets=%d delay=%ds timeout=%ds timezone=%s''
            [ArgInt 1, ArgInt 30, ArgInt 5, ArgString ''Europe/Berlin'']]
   \<and> Delay (applyDefaults (legacyFallback ex_legacy_cfg)) = 30
   \<and> Timeout (applyDefaults (legacyFallback ex_legacy_cfg)) = 5
   \<and> Timezone (applyDefaults (legacyFallback ex_legacy_cfg)) = ''Europe/Berlin''"
proof -
  have l: "loadConfig (ex_startup ex_legacy_cfg) (cfgPath (ex_startup ex_legacy_cfg))
             = Inr ex_legacy_cfg"
    by (simp add: ex_startup_fields cfgPath_def)
  have m: "main (ex_startup ex_legacy_cfg)
     = Monitoring (applyDefaults (legacyFallback ex_legacy_cfg))
         [newTargetState ''default'' ''1.1.1.1'' ''IPv4'' ''tcp4'' 443]
         [LogPrintf ''starting port monitor: targets=%d delay=%ds timeout=%ds timezone=%s''
            [ArgInt 1, ArgInt 30, ArgInt 5, ArgString ''Europe/Berlin'']]"
    by (simp add: main_log_opened ex_startup_fields cfgPath_def no_faults_def legacyFallback_def
          applyDefaults_def ex_legacy_cfg_def Let_def)
  from startup_defaults [of ex_legacy_cfg, THEN conjunct2, THEN conjunct2, THEN conjunct2,
      THEN conjunct2, rule_format, OF m]
  obtain cfg0 where c: "loadConfig (ex_startup ex_legacy_cfg) (cfgPath (ex_startup ex_legacy_cfg))
                          = Inr cfg0"
      "Delay (applyDefaults (legacyFallback ex_legacy_cfg))
         = (if Delay cfg0 \<le> 0 then 30 else Delay cfg0)"
      "Timeout (applyDefaults (legacyFallback ex_legacy_cfg))
         = (if Timeout cfg0 \<le> 0 then 5 else Timeout cfg0)"
      "Timezone (applyDefaults (legacyFallback ex_legacy_cfg))
         = (if Timezone cfg0 = '''' then ''Europe/Berlin'' else Timezone cfg0)"
    by blast
  from c(1) l have "cfg0 = ex_legacy_cfg" by simp
  with c(2-4) m show ?thesis
    by (simp add: ex_legacy_cfg_def)
qed

text \<open>
  C9.  When the loaded configuration has no targets list and no legacy address or port,
  main ends in a fatal exit with status 1 (whichever check fails first) and starts no
  monitor loop; so it does whenever no usable target state is built from the
  configuration.  If the log file opens, the webhook is present and the zone loads, the
  message is \<^verbatim>\<open>no targets configured\<close> for an empty list and
  \<^verbatim>\<open>no valid targets (missing IPs or ports)\<close> for a list that yields no state.  A start
  of the monitor loops always has at least one state.
\<close>

theorem no_targets_is_fatal:
  assumes "loadConfig sw (cfgPath sw) = Inr cfg0"
  shows "(Targets cfg0 = [] \<and> IPv4 cfg0 = '''' \<and> IPv6 cfg0 = '''' \<and> DPort cfg0 = 0 \<longrightarrow>
            (\<exists>fmt args. main sw = Exited 1 fmt args))
       \<and> (targetStates (Targets (legacyFallback cfg0)) = [] \<longrightarrow>
            (\<exists>fmt args. main sw = Exited 1 fmt args))
       \<and> (targetStates (Targets (legacyFallback cfg0)) = [] \<longrightarrow>
          open_err (log_faults sw) = None \<longrightarrow>
          Webhook cfg0 \<noteq> '''' \<longrightarrow>
          time_LoadLocation sw (Timezone (applyDefaults (legacyFallback cfg0))) = None \<longrightarrow>
            main sw = (if Targets (legacyFallback cfg0) = []
                       then Exited 1 ''no targets configured'' []
                       else Exited 1 ''no valid targets (missing IPs or ports)'' []))
       \<and> (\<forall>cfg states evs. main sw = Monitoring cfg states evs \<longrightarrow>
            states = targetStates (Targets (legacyFallback cfg0)) \<and> states \<noteq> [])"
proof (intro conjI impI allI)
  assume "Targets cfg0 = [] \<and> IPv4 cfg0 = '''' \<and> IPv6 cfg0 = '''' \<and> DPort cfg0 = 0"
  then have "targetStates (Targets (legacyFallback cfg0)) = []"
    by (simp add: legacyFallback_nothing)
  with assms show "\<exists>fmt args. main sw = Exited 1 fmt args"
    by (rule main_no_states)
next
  assume "targetStates (Targets (legacyFallback cfg0)) = []"
  with assms show "\<exists>fmt args. main sw = Exited 1 fmt args"
    by (rule main_no_states)
next
  assume "targetStates (Targets (legacyFallback cfg0)) = []"
     and "open_err (log_faults sw) = None"
     and "Webhook cfg0 \<noteq> ''''"
     and "time_LoadLocation sw (Timezone (applyDefaults (legacyFallback cfg0))) = None"
  then show "main sw = (if Targets (legacyFallback cfg0) = []
                       then Exited 1 ''no targets configured'' []
                       else Exited 1 ''no valid targets (missing IPs or ports)'' [])"
    using assms
    by (simp add: main_log_opened log_Fatalf_def Let_def applyDefaults_fields
          legacyFallback_fields)
next
  fix cfg states evs
  assume m: "main sw = Monitoring cfg states evs"
  then obtain c where c: "loadConfig sw (cfgPath sw) = Inr c"
      "cfg = applyDefaults (legacyFallback c)" "states = targetStates (Targets cfg)"
      "states \<noteq> []"
    using main_Monitoring by blast
  have "c = cfg0" using c(1) assms by simp
  then show "states = targetStates (Targets (legacyFallback cfg0))"
    using c by (simp add: applyDefaults_fields)
  show "states \<noteq> []" by (rule c(4))
qed

theorem no_targets_is_fatal_witness:
  "main (ex_startup ex_empty_cfg) = Exited 1 ''no targets configured'' []
   \<and> main (ex_startup (ex_empty_cfg\<lparr>Targets := [\<lparr>tc_Name = ''web'', tc_IPv4 = '''',
        tc_IPv6 = '''', tc_DPort = 443\<rparr>]\<rparr>))
       = Exited 1 ''no valid targets (missing IPs or ports)'' []"
proof -
  let ?c2 = "ex_empty_cfg\<lparr>Targets := [\<lparr>tc_Name = ''web'', tc_IPv4 = '''',
        tc_IPv6 = '''', tc_DPort = 443\<rparr>]\<rparr>"
  have l: "\<And>c. loadConfig (ex_startup c) (cfgPath (ex_startup c)) = Inr c"
    by (simp add: ex_startup_fields cfgPath_def)
  have o: "\<And>c. open_err (log_faults (ex_startup c)) = None"
    by (simp add: ex_startup_fields no_faults_def)
  have z: "\<And>c n. time_LoadLocation (ex_startup c) n = None"
    by (simp add: ex_startup_fields)
  have e1: "targetStates (Targets (legacyFallback ex_empty_cfg)) = []"
       "Targets (legacyFallback ex_empty_cfg) = []" "Webhook ex_empty_cfg \<noteq> ''''"
    by (simp_all add: legacyFallback_def ex_empty_cfg_def)
  have e2: "targetStates (Targets (legacyFallback ?c2)) = []"
       "Targets (legacyFallback ?c2) \<noteq> []" "Webhook ?c2 \<noteq> ''''"
    by (simp_all add: legacyFallback_def ex_empty_cfg_def)
  from no_targets_is_fatal [OF l, of ex_empty_cfg, THEN conjunct2, THEN conjunct2,
      THEN conjunct1, rule_format, OF e1(1) o e1(3) z] e1(2)
  have a: "main (ex_startup ex_empty_cfg) = Exited 1 ''no targets configured'' []"
    by simp
  from no_targets_is_fatal [OF l, of ?c2, THEN conjunct2, THEN conjunct2,
      THEN conjunct1, rule_format, OF e2(1) o e2(3) z] e2(2)
  have b: "main (ex_startup ?c2) = Exited 1 ''no valid targets (missing IPs or ports)'' []"
    by simp
  from a b show ?thesis by (intro conjI)
qed

section \<open>Claims about the rotating log writer\<close>

lemma backup_path_differs: "p \<noteq> p @ ''.1''" "p @ ''.1'' \<noteq> p"
  by simp_all

lemma Write_no_faults_open:
  assumes "file' w = Some Open" and "fs (path w) \<noteq> None"
  shows "Write w fs no_faults p =
           (if int (length (contents fs (path w))) + int (length p) > maxSize w
            then ((int (length p), None), w\<lparr>file' := Some Open\<rparr>,
                  fs(path w @ ''.1'' \<mapsto> contents fs (path w), path w \<mapsto> p))
            else ((int (length p), None), w\<lparr>file' := Some Open\<rparr>,
                  fs(path w \<mapsto> contents fs (path w) @ p)))"
proof -
  obtain c where c: "fs (path w) = Some c"
    using assms(2) by auto
  have w: "w\<lparr>file' := Some Open\<rparr> = w"
    using assms(1) by simp
  have m: "(((fs(path w := None))(path w @ ''.1'' \<mapsto> c))(path w \<mapsto> ''''))(path w \<mapsto> p)
             = fs(path w @ ''.1'' \<mapsto> c, path w \<mapsto> p)"
    by (auto simp add: fun_eq_iff)
  show ?thesis
    using assms(1) c m
    by (simp add: Write_def Write_opened_def file_Stat_def rotate_def file_Write_def
          closeFile_def no_faults_def contents_def Let_def w)
qed

lemma Write_no_faults_nil:
  assumes "file' w = None"
  shows "Write w fs no_faults p =
           (if int (length (contents fs (path w))) + int (length p) > maxSize w
            then ((int (length p), None), w\<lparr>file' := Some Open\<rparr>,
                  fs(path w @ ''.1'' \<mapsto> contents fs (path w), path w \<mapsto> p))
            else ((int (length p), None), w\<lparr>file' := Some Open\<rparr>,
                  fs(path w \<mapsto> contents fs (path w) @ p)))"
proof -
  let ?w1 = "w\<lparr>file' := Some Open\<rparr>"
  let ?fs1 = "if fs (path w) = None then fs(path w \<mapsto> '''') else fs"
  have o: "open_writer w fs no_faults = (None, ?w1, ?fs1)"
    using assms by (simp add: open_writer_def closeFile_def no_faults_def Let_def)
  have a: "file' ?w1 = Some Open" "?fs1 (path ?w1) \<noteq> None" by auto
  have c: "contents ?fs1 (path w) = contents fs (path w)"
    by (simp add: contents_def)
  have f1: "?fs1(path w @ ''.1'' \<mapsto> contents fs (path w), path w \<mapsto> p)
              = fs(path w @ ''.1'' \<mapsto> contents fs (path w), path w \<mapsto> p)"
    by (auto simp add: fun_eq_iff)
  have f2: "?fs1(path w \<mapsto> contents fs (path w) @ p) = fs(path w \<mapsto> contents fs (path w) @ p)"
    by (auto simp add: fun_eq_iff)
  have "Write w fs no_faults p = Write ?w1 ?fs1 no_faults p"
    using assms o by (simp add: Write_def)
  also have "\<dots> =
           (if int (length (contents ?fs1 (path ?w1))) + int (length p) > maxSize ?w1
            then ((int (length p), None), ?w1\<lparr>file' := Some Open\<rparr>,
                  ?fs1(path ?w1 @ ''.1'' \<mapsto> contents ?fs1 (path ?w1), path ?w1 \<mapsto> p))
            else ((int (length p), None), ?w1\<lparr>file' := Some Open\<rparr>,
                  ?fs1(path ?w1 \<mapsto> contents ?fs1 (path ?w1) @ p)))"
    using a by (rule Write_no_faults_open)
  finally show ?thesis
    using c f1 f2 by simp
qed

lemma open_writer_touches:
  assumes "open_writer w fs fl = (r, w', fs')"
  shows "path w' = path w \<and> maxSize w' = maxSize w \<and> dom fs' \<subseteq> dom fs \<union> {path w, path w @ ''.1''}"
  using assms
  by (auto simp add: open_writer_def Let_def split: option.splits if_splits)

lemma rotate_touches:
  assumes "rotate w fs fl = (r, w', fs')"
  shows "path w' = path w \<and> maxSize w' = maxSize w \<and> dom fs' \<subseteq> dom fs \<union> {path w, path w @ ''.1''}"
  using assms
  by (auto simp add: rotate_def Let_def split: option.splits if_splits)

lemma file_Write_touches:
  assumes "file_Write w fs fl p = (r, fs')"
  shows "dom fs' \<subseteq> dom fs \<union> {path w, path w @ ''.1''}"
  using assms
  by (auto simp add: file_Write_def split: option.splits if_splits)

lemma Write_opened_touches:
  assumes "Write_opened w fs fl p = (r, w', fs')"
  shows "path w' = path w \<and> maxSize w' = maxSize w \<and> dom fs' \<subseteq> dom fs \<union> {path w, path w @ ''.1''}"
proof (cases "\<exists>sz. file_Stat w fs fl = Inr sz \<and> sz + int (length p) > maxSize w")
  case True
  then obtain sz where sz: "file_Stat w fs fl = Inr sz" "sz + int (length p) > maxSize w"
    by blast
  obtain e w1 fs1 where ro: "rotate w fs fl = (e, w1, fs1)"
    by (cases "rotate w fs fl")
  note t1 = rotate_touches [OF ro]
  show ?thesis
  proof (cases e)
    case (Some err)
    then show ?thesis
      using assms sz ro t1 by (simp add: Write_opened_def)
  next
    case None
    obtain r2 fs2 where fw: "file_Write w1 fs1 fl p = (r2, fs2)"
      by (cases "file_Write w1 fs1 fl p")
    have "dom fs2 \<subseteq> dom fs1 \<union> {path w1, path w1 @ ''.1''}"
      by (rule file_Write_touches [OF fw])
    then have "dom fs2 \<subseteq> dom fs \<union> {path w, path w @ ''.1''}"
      using t1 by auto
    then show ?thesis
      using assms sz ro None fw t1 by (simp add: Write_opened_def)
  qed
next
  case False
  obtain r2 fs2 where fw: "file_Write w fs fl p = (r2, fs2)"
    by (cases "file_Write w fs fl p")
  have d: "dom fs2 \<subseteq> dom fs \<union> {path w, path w @ ''.1''}"
    by (rule file_Write_touches [OF fw])
  have "Write_opened w fs fl p = (r2, w, fs2)"
    using False fw by (cases "file_Stat w fs fl") (auto simp add: Write_opened_def)
  then show ?thesis
    using assms d by simp
qed

lemma Write_touches:
  assumes "Write w fs fl p = (r, w', fs')"
  shows "path w' = path w \<and> maxSize w' = maxSize w \<and> dom fs' \<subseteq> dom fs \<union> {path w, path w @ ''.1''}"
proof (cases "file' w = None")
  case False
  then have "Write_opened w fs fl p = (r, w', fs')"
    using assms by (auto simp add: Write_def)
  then show ?thesis
    by (rule Write_opened_touches)
next
  case True
  obtain e w1 fs1 where op: "open_writer w fs fl = (e, w1, fs1)"
    by (cases "open_writer w fs fl")
  note t1 = open_writer_touches [OF op]
  show ?thesis
  proof (cases e)
    case (Some err)
    then show ?thesis
      using assms True op t1 by (simp add: Write_def)
  next
    case None
    then have "Write_opened w1 fs1 fl p = (r, w', fs')"
      using assms True op by (simp add: Write_def)
    from Write_opened_touches [OF this] t1 show ?thesis by auto
  qed
qed

lemma Write_all_touches:
  "path (fst (Write_all w fs calls)) = path w
   \<and> dom (snd (Write_all w fs calls)) \<subseteq> dom fs \<union> {path w, path w @ ''.1''}"
proof (induction calls arbitrary: w fs)
  case Nil
  then show ?case by auto
next
  case (Cons call calls)
  obtain fl p where call: "call = (fl, p)" by (cases call)
  obtain r w' fs' where s: "Write w fs fl p = (r, w', fs')" by (cases "Write w fs fl p")
  have t: "path w' = path w" "dom fs' \<subseteq> dom fs \<union> {path w, path w @ ''.1''}"
    using Write_touches [OF s] by simp_all
  have "path (fst (Write_all w' fs' calls)) = path w'"
       "dom (snd (Write_all w' fs' calls)) \<subseteq> dom fs' \<union> {path w', path w' @ ''.1''}"
    using Cons.IH [of w' fs'] by simp_all
  then show ?case
    using t call s by auto
qed

lemma newRotatingWriter_opened:
  assumes "newRotatingWriter pth mx fs fl = (Inr w, fs')"
  shows "path w = pth \<and> maxSize w = mx \<and> file' w = Some Open \<and> fs' (path w) \<noteq> None"
  using assms
  by (auto simp add: newRotatingWriter_def open_writer_def closeFile_def Let_def
        split: option.splits if_splits)

lemma ex_log_length: "int (length ex_log) = 52428790"
  by (simp add: ex_log_def)

lemma ex_fs_lookup:
  "ex_fs ''portwatch.log'' = Some ex_log"
  "contents ex_fs ''portwatch.log'' = ex_log"
  "ex_fs ''portwatch.log.1'' = Some ''older lines''"
  by (simp_all add: ex_fs_def contents_def)

text \<open>
  C2 (as amended).  For every byte sequence and every writer whose handle is nil or open
  (an open handle's file existing under its name), a Write whose system calls all succeed
  rotates before appending exactly when the size of the active file plus the length of
  the bytes exceeds \<^verbatim>\<open>maxSize\<close>: then the old contents of the active file become the
  contents of \<^verbatim>\<open>path.1\<close>, replacing any earlier backup, and the active file holds the
  new bytes only; otherwise the bytes are appended and the backup is untouched.  Whatever
  fails, a series of writes creates no file besides \<^verbatim>\<open>path\<close> and \<^verbatim>\<open>path.1\<close>.  The
  writer that main creates has the threshold 50 MiB = 52428800 bytes.
\<close>

theorem Write_rotates_at_threshold:
  assumes "file' w \<noteq> Some Closed"
      and "file' w = Some Open \<longrightarrow> fs (path w) \<noteq> None"
  shows "Write w fs no_faults p =
           (if int (length (contents fs (path w))) + int (length p) > maxSize w
            then ((int (length p), None), w\<lparr>file' := Some Open\<rparr>,
                  fs(path w @ ''.1'' \<mapsto> contents fs (path w), path w \<mapsto> p))
            else ((int (length p), None), w\<lparr>file' := Some Open\<rparr>,
                  fs(path w \<mapsto> contents fs (path w) @ p)))
       \<and> (\<forall>calls. dom (snd (Write_all w fs calls)) \<subseteq> dom fs \<union> {path w, path w @ ''.1''})
       \<and> (\<forall>fs0 fl w0 fs1.
             newRotatingWriter ''portwatch.log'' maxLogSize fs0 fl = (Inr w0, fs1) \<longrightarrow>
               maxSize w0 = 52428800 \<and> file' w0 = Some Open \<and> fs1 (path w0) \<noteq> None)"
proof (intro conjI allI impI)
  show "Write w fs no_faults p =
           (if int (length (contents fs (path w))) + int (length p) > maxSize w
            then ((int (length p), None), w\<lparr>file' := Some Open\<rparr>,
                  fs(path w @ ''.1'' \<mapsto> contents fs (path w), path w \<mapsto> p))
            else ((int (length p), None), w\<lparr>file' := Some Open\<rparr>,
                  fs(path w \<mapsto> contents fs (path w) @ p)))"
  proof (cases "file' w")
    case None
    then show ?thesis by (rule Write_no_faults_nil)
  next
    case (Some h)
    then have "file' w = Some Open" "fs (path w) \<noteq> None"
      using assms by (cases h; simp)+
    then show ?thesis by (rule Write_no_faults_open)
  qed
next
  fix calls
  show "dom (snd (Write_all w fs calls)) \<subseteq> dom fs \<union> {path w, path w @ ''.1''}"
    using Write_all_touches by blast
next
  fix fs0 fl w0 fs1
  assume n: "newRotatingWriter ''portwatch.log'' maxLogSize fs0 fl = (Inr w0, fs1)"
  from newRotatingWriter_opened [OF n]
  show "maxSize w0 = 52428800" "file' w0 = Some Open" "fs1 (path w0) \<noteq> None"
    by (auto simp add: maxLogSize_def)
qed

theorem Write_rotates_at_threshold_witness:
  "Write ex_writer ex_fs no_faults ''hello world''
     = ((11, None), ex_writer,
        [''portwatch.log'' \<mapsto> ''hello world'', ''portwatch.log.1'' \<mapsto> ex_log])
   \<and> Write ex_writer ex_fs no_faults ''0123456789''
     = ((10, None), ex_writer,
        [''portwatch.log'' \<mapsto> ex_log @ ''0123456789'', ''portwatch.log.1'' \<mapsto> ''older lines''])"
proof -
  have h1: "file' ex_writer \<noteq> Some Closed"
    by (simp add: ex_writer_def)
  have h2: "file' ex_writer = Some Open \<longrightarrow> ex_fs (path ex_writer) \<noteq> None"
    by (simp add: ex_writer_def ex_fs_lookup)
  have w: "path ex_writer = ''portwatch.log''" "maxSize ex_writer = 52428800"
    "ex_writer\<lparr>file' := Some Open\<rparr> = ex_writer"
    by (simp_all add: ex_writer_def maxLogSize_def)
  have m1: "ex_fs(''portwatch.log.1'' \<mapsto> ex_log, ''portwatch.log'' \<mapsto> ''hello world'')
              = [''portwatch.log'' \<mapsto> ''hello world'', ''portwatch.log.1'' \<mapsto> ex_log]"
    by (auto simp add: fun_eq_iff ex_fs_def)
  have m2: "ex_fs(''portwatch.log'' \<mapsto> ex_log @ ''0123456789'')
              = [''portwatch.log'' \<mapsto> ex_log @ ''0123456789'',
                 ''portwatch.log.1'' \<mapsto> ''older lines'']"
    by (auto simp add: fun_eq_iff ex_fs_def)
  from Write_rotates_at_threshold [where w = ex_writer and fs = ex_fs
      and p = "''hello world''", OF h1 h2, THEN conjunct1]
  have a: "Write ex_writer ex_fs no_faults ''hello world''
     = ((11, None), ex_writer,
        [''portwatch.log'' \<mapsto> ''hello world'', ''portwatch.log.1'' \<mapsto> ex_log])"
    by (simp add: w ex_fs_lookup ex_log_length m1)
  from Write_rotates_at_threshold [where w = ex_writer and fs = ex_fs
      and p = "''0123456789''", OF h1 h2, THEN conjunct1]
  have b: "Write ex_writer ex_fs no_faults ''0123456789''
     = ((10, None), ex_writer,
        [''portwatch.log'' \<mapsto> ex_log @ ''0123456789'', ''portwatch.log.1'' \<mapsto> ''older lines''])"
    by (simp add: w ex_fs_lookup ex_log_length m2)
  from a b show ?thesis by (intro conjI)
qed

text \<open>
  C2 as stated fails when a system call of the write fails.  With the log ten bytes below
  the threshold, a write of eleven bytes whose rename fails still truncates the active
  file: the old contents are in no file afterwards and the backup is the earlier one.
  When the size query fails, the same write appends without rotating although the
  threshold is exceeded.  Both writes report success.
\<close>

theorem Write_rotation_counterexample:
  "maxSize ex_writer < int (length (contents ex_fs (path ex_writer))) + int (length ''hello world'')
   \<and> Write ex_writer ex_fs ex_rename_fails ''hello world''
       = ((11, None), ex_writer,
          [''portwatch.log'' \<mapsto> ''hello world'', ''portwatch.log.1'' \<mapsto> ''older lines''])
   \<and> Write ex_writer ex_fs ex_stat_fails ''hello world''
       = ((11, None), ex_writer,
          [''portwatch.log'' \<mapsto> ex_log @ ''hello world'', ''portwatch.log.1'' \<mapsto> ''older lines''])"
proof -
  have w: "path ex_writer = ''portwatch.log''" "maxSize ex_writer = 52428800"
    "file' ex_writer = Some Open" "ex_writer\<lparr>file' := Some Open\<rparr> = ex_writer"
    by (simp_all add: ex_writer_def maxLogSize_def)
  have a: "maxSize ex_writer
             < int (length (contents ex_fs (path ex_writer))) + int (length ''hello world'')"
    by (simp add: w ex_fs_lookup ex_log_length)
  have m1: "ex_fs(''portwatch.log'' \<mapsto> ''hello world'')
              = [''portwatch.log'' \<mapsto> ''hello world'', ''portwatch.log.1'' \<mapsto> ''older lines'']"
    by (auto simp add: fun_eq_iff ex_fs_def)
  have m2: "ex_fs(''portwatch.log'' \<mapsto> ex_log @ ''hello world'')
              = [''portwatch.log'' \<mapsto> ex_log @ ''hello world'',
                 ''portwatch.log.1'' \<mapsto> ''older lines'']"
    by (auto simp add: fun_eq_iff ex_fs_def)
  have b: "Write ex_writer ex_fs ex_rename_fails ''hello world''
       = ((11, None), ex_writer,
          [''portwatch.log'' \<mapsto> ''hello world'', ''portwatch.log.1'' \<mapsto> ''older lines''])"
    by (simp add: Write_def Write_opened_def file_Stat_def rotate_def file_Write_def
          closeFile_def ex_rename_fails_def no_faults_def Let_def w ex_fs_lookup
          ex_log_length contents_def m1)
  have c: "Write ex_writer ex_fs ex_stat_fails ''hello world''
       = ((11, None), ex_writer,
          [''portwatch.log'' \<mapsto> ex_log @ ''hello world'', ''portwatch.log.1'' \<mapsto> ''older lines''])"
    by (simp add: Write_def Write_opened_def file_Stat_def file_Write_def
          ex_stat_fails_def no_faults_def w ex_fs_lookup contents_def m2)
  from a b c show ?thesis by (intro conjI)
qed

lemma Write_via_opened:
  assumes "file' w \<noteq> Some Closed" and "file' w = None \<longrightarrow> open_err fl = None"
  shows "\<exists>w1 fs1. Write w fs fl p = Write_opened w1 fs1 fl p \<and> file' w1 = Some Open
           \<and> path w1 = path w \<and> maxSize w1 = maxSize w
           \<and> contents fs1 (path w) = contents fs (path w)"
proof (cases "file' w")
  case None
  let ?w1 = "w\<lparr>file' := Some Open\<rparr>"
  let ?fs1 = "if fs (path w) = None then fs(path w \<mapsto> '''') else fs"
  have "Write w fs fl p = Write_opened ?w1 ?fs1 fl p"
    using None assms(2) by (simp add: Write_def open_writer_def closeFile_def Let_def)
  moreover have "contents ?fs1 (path w) = contents fs (path w)"
    by (simp add: contents_def)
  ultimately show ?thesis
    by (intro exI [of _ ?w1] exI [of _ ?fs1]) simp
next
  case (Some h)
  then have "file' w = Some Open"
    using assms(1) by (cases h) simp_all
  then show ?thesis
    by (auto simp add: Write_def)
qed

lemma Write_opened_result:
  assumes "file' w = Some Open"
  shows "fst (Write_opened w fs fl p) =
           (case (if stat_err fl = None
                     \<and> maxSize w < int (length (contents fs (path w))) + int (length p)
                  then trunc_err fl else None) of
              Some err \<Rightarrow> (0, Some err)
            | None \<Rightarrow>
                (case write_err fl of
                   Some (n, err) \<Rightarrow> (int (min n (length p)), Some err)
                 | None \<Rightarrow> (int (length p), None)))"
  using assms
  by (simp add: Write_opened_def file_Stat_def rotate_def file_Write_def closeFile_def Let_def
        split: option.splits sum.splits prod.splits)

lemma Write_result:
  "fst (Write w fs fl p) =
     (if file' w = Some Closed then (0, Some (ErrClosed ''write'' (path w)))
      else case (if file' w = None then open_err fl else None) of
             Some err \<Rightarrow> (0, Some err)
           | None \<Rightarrow>
               (case (if stat_err fl = None
                         \<and> maxSize w < int (length (contents fs (path w))) + int (length p)
                      then trunc_err fl else None) of
                  Some err \<Rightarrow> (0, Some err)
                | None \<Rightarrow>
                    (case write_err fl of
                       Some (n, err) \<Rightarrow> (int (min n (length p)), Some err)
                     | None \<Rightarrow> (int (length p), None))))"
proof (cases "file' w = Some Closed")
  case True
  then show ?thesis
    by (simp add: Write_def Write_opened_def file_Stat_def file_Write_def)
next
  case False
  show ?thesis
  proof (cases "file' w = None \<and> open_err fl \<noteq> None")
    case True
    then show ?thesis
      by (auto simp add: Write_def open_writer_def Let_def)
  next
    case no: False
    then have o: "file' w = None \<longrightarrow> open_err fl = None"
      by auto
    obtain w1 fs1 where v: "Write w fs fl p = Write_opened w1 fs1 fl p" "file' w1 = Some Open"
        "path w1 = path w" "maxSize w1 = maxSize w"
        "contents fs1 (path w) = contents fs (path w)"
      using Write_via_opened [OF False o] by blast
    have "(if file' w = None then open_err fl else None) = None"
      using o by simp
    then show ?thesis
      using False v Write_opened_result [OF v(2), of fs1 fl p] by simp
  qed
qed

lemma Write_result_ignores_rename:
  "fst (Write w fs (fl\<lparr>rename_err := r\<rparr>) p) = fst (Write w fs fl p)"
proof -
  have "open_err (fl\<lparr>rename_err := r\<rparr>) = open_err fl"
       "stat_err (fl\<lparr>rename_err := r\<rparr>) = stat_err fl"
       "trunc_err (fl\<lparr>rename_err := r\<rparr>) = trunc_err fl"
       "write_err (fl\<lparr>rename_err := r\<rparr>) = write_err fl"
    by simp_all
  then show ?thesis
    unfolding Write_result by (simp only:)
qed

text \<open>
  C3 (as amended).  A failure to open the log file at startup ends main with the fatal
  message \<^verbatim>\<open>cannot set up log file\<close> and exit status 1.  What Write returns is, in this
  order: the closed-file error when the handle is already closed; the error of opening
  the file when the handle is nil and the file cannot be opened; the error of opening the
  new active file when a rotation is due (the size query succeeded and the threshold is
  exceeded) and that opening fails; otherwise the outcome of the append, its error and
  byte count when it fails and the full length without error when it succeeds.  A failure
  of the rename step of a rotation is not reported: the value Write returns does not
  depend on it.  A failure of the size query is not reported either: its error is never
  returned, the rotation is skipped, and Write returns the outcome of the append alone.
\<close>

theorem open_and_append_failures_reported:
  "(open_err (log_faults sw) = Some e \<longrightarrow>
      main sw = Exited 1 ''cannot set up log file: %v'' [ArgError e])
   \<and> fst (Write w fs fl p) =
       (if file' w = Some Closed then (0, Some (ErrClosed ''write'' (path w)))
        else case (if file' w = None then open_err fl else None) of
               Some err \<Rightarrow> (0, Some err)
             | None \<Rightarrow>
                 (case (if stat_err fl = None
                           \<and> maxSize w < int (length (contents fs (path w))) + int (length p)
                        then trunc_err fl else None) of
                    Some err \<Rightarrow> (0, Some err)
                  | None \<Rightarrow>
                      (case write_err fl of
                         Some (n, err) \<Rightarrow> (int (min n (length p)), Some err)
                       | None \<Rightarrow> (int (length p), None))))
   \<and> fst (Write w fs (fl\<lparr>rename_err := r\<rparr>) p) = fst (Write w fs fl p)
   \<and> (stat_err fl \<noteq> None \<longrightarrow> file' w \<noteq> Some Closed \<longrightarrow>
      (file' w = None \<longrightarrow> open_err fl = None) \<longrightarrow>
        fst (Write w fs fl p) =
          (case write_err fl of
             Some (n, err) \<Rightarrow> (int (min n (length p)), Some err)
           | None \<Rightarrow> (int (length p), None)))"
proof (intro conjI impI)
  assume "open_err (log_faults sw) = Some e"
  then show "main sw = Exited 1 ''cannot set up log file: %v'' [ArgError e]"
    by (rule main_log_failed)
next
  show "fst (Write w fs fl p) =
       (if file' w = Some Closed then (0, Some (ErrClosed ''write'' (path w)))
        else case (if file' w = None then open_err fl else None) of
               Some err \<Rightarrow> (0, Some err)
             | None \<Rightarrow>
                 (case (if stat_err fl = None
                           \<and> maxSize w < int (length (contents fs (path w))) + int (length p)
                        then trunc_err fl else None) of
                    Some err \<Rightarrow> (0, Some err)
                  | None \<Rightarrow>
                      (case write_err fl of
                         Some (n, err) \<Rightarrow> (int (min n (length p)), Some err)
                       | None \<Rightarrow> (int (length p), None))))"
    by (rule Write_result)
next
  show "fst (Write w fs (fl\<lparr>rename_err := r\<rparr>) p) = fst (Write w fs fl p)"
    by (rule Write_result_ignores_rename)
next
  assume "stat_err fl \<noteq> None" and "file' w \<noteq> Some Closed"
     and "file' w = None \<longrightarrow> open_err fl = None"
  then show "fst (Write w fs fl p) =
          (case write_err fl of
             Some (n, err) \<Rightarrow> (int (min n (length p)), Some err)
           | None \<Rightarrow> (int (length p), None))"
    by (auto simp add: Write_result)
qed

theorem open_and_append_failures_reported_witness:
  "main ((ex_startup ex_cfg)\<lparr>log_faults := no_faults\<lparr>open_err :=
        Some (PlainError ''open portwatch.log: permission denied'')\<rparr>\<rparr>)
     = Exited 1 ''cannot set up log file: %v''
         [ArgError (PlainError ''open portwatch.log: permission denied'')]
   \<and> fst (Write (ex_writer\<lparr>file' := None\<rparr>) ex_fs
            (no_faults\<lparr>open_err := Some (PlainError ''open portwatch.log: permission denied'')\<rparr>)
            ''hello world'')
       = (0, Some (PlainError ''open portwatch.log: permission denied''))
   \<and> fst (Write ex_writer ex_fs
            (no_faults\<lparr>trunc_err := Some (PlainError ''open portwatch.log: too many open files'')\<rparr>)
            ''hello world'')
       = (0, Some (PlainError ''open portwatch.log: too many open files''))
   \<and> fst (Write ex_writer ex_fs
            (no_faults\<lparr>write_err := Some (4, PlainError ''write portwatch.log: no space left on device'')\<rparr>)
            ''hello world'')
       = (4, Some (PlainError ''write portwatch.log: no space left on device''))
   \<and> fst (Write ex_writer ex_fs
            (ex_stat_fails\<lparr>trunc_err := Some (PlainError ''open portwatch.log: too many open files'')\<rparr>)
            ''hello world'')
       = (11, None)
   \<and> fst (Write (ex_writer\<lparr>file' := Some Closed\<rparr>) ex_fs no_faults ''hello world'')
       = (0, Some (PlainError ''write portwatch.log: file already closed''))"
proof -
  let ?e1 = "PlainError ''open portwatch.log: permission denied''"
  let ?e2 = "PlainError ''open portwatch.log: too many open files''"
  let ?e3 = "PlainError ''write portwatch.log: no space left on device''"
  let ?sw = "(ex_startup ex_cfg)\<lparr>log_faults := no_faults\<lparr>open_err := Some ?e1\<rparr>\<rparr>"
  have w: "path ex_writer = ''portwatch.log''" "maxSize ex_writer = 52428800"
    "file' ex_writer = Some Open"
    by (simp_all add: ex_writer_def maxLogSize_def)
  have h1: "open_err (log_faults ?sw) = Some ?e1"
    by simp
  note formula = open_and_append_failures_reported [THEN conjunct2, THEN conjunct1]
  have a: "main ?sw = Exited 1 ''cannot set up log file: %v'' [ArgError ?e1]"
    using open_and_append_failures_reported [where sw = ?sw and e = ?e1, THEN conjunct1] h1
    by simp
  have b: "fst (Write (ex_writer\<lparr>file' := None\<rparr>) ex_fs (no_faults\<lparr>open_err := Some ?e1\<rparr>)
             ''hello world'') = (0, Some ?e1)"
    by (simp add: formula)
  have c: "fst (Write ex_writer ex_fs (no_faults\<lparr>trunc_err := Some ?e2\<rparr>) ''hello world'')
             = (0, Some ?e2)"
    by (simp add: formula w ex_fs_lookup ex_log_length no_faults_def)
  have d: "fst (Write ex_writer ex_fs (no_faults\<lparr>write_err := Some (4, ?e3)\<rparr>) ''hello world'')
             = (4, Some ?e3)"
    by (simp add: formula w ex_fs_lookup ex_log_length no_faults_def)
  have e: "fst (Write ex_writer ex_fs (ex_stat_fails\<lparr>trunc_err := Some ?e2\<rparr>) ''hello world'')
             = (11, None)"
    using open_and_append_failures_reported
            [where w = ex_writer and fs = ex_fs and p = "''hello world''"
               and fl = "ex_stat_fails\<lparr>trunc_err := Some ?e2\<rparr>",
             THEN conjunct2, THEN conjunct2, THEN conjunct2]
    by (simp add: w ex_stat_fails_def no_faults_def)
  have f: "fst (Write (ex_writer\<lparr>file' := Some Closed\<rparr>) ex_fs no_faults ''hello world'')
             = (0, Some (PlainError ''write portwatch.log: file already closed''))"
    by (simp add: formula w ErrClosed_def)
  from a b c d e f show ?thesis by (intro conjI)
qed

text \<open>
  C3 as stated fails for the rename step: with the log ten bytes below the threshold and
  a rename that fails, Write reports success (eleven bytes, no error) although the
  rotation lost the old contents of the log, which are in neither file afterwards.
\<close>

theorem rename_failure_swallowed_counterexample:
  "rename_err ex_rename_fails = Some (PlainError ''rename: permission denied'')
   \<and> fst (Write ex_writer ex_fs ex_rename_fails ''hello world'') = (11, None)
   \<and> snd (snd (Write ex_writer ex_fs ex_rename_fails ''hello world'')) ''portwatch.log''
       = Some ''hello world''
   \<and> snd (snd (Write ex_writer ex_fs ex_rename_fails ''hello world'')) ''portwatch.log.1''
       = Some ''older lines''
   \<and> ex_fs ''portwatch.log'' = Some ex_log \<and> length ex_log = 52428790"
proof -
  have w: "path ex_writer = ''portwatch.log''" "maxSize ex_writer = 52428800"
    "file' ex_writer = Some Open" "ex_writer\<lparr>file' := Some Open\<rparr> = ex_writer"
    by (simp_all add: ex_writer_def maxLogSize_def)
  have b: "Write ex_writer ex_fs ex_rename_fails ''hello world''
       = ((11, None), ex_writer, ex_fs(''portwatch.log'' \<mapsto> ''hello world''))"
    by (simp add: Write_def Write_opened_def file_Stat_def rotate_def file_Write_def
          closeFile_def ex_rename_fails_def no_faults_def Let_def w ex_fs_lookup
          ex_log_length contents_def)
  have c: "rename_err ex_rename_fails = Some (PlainError ''rename: permission denied'')"
    by (simp add: ex_rename_fails_def)
  have d: "length ex_log = 52428790"
    by (simp add: ex_log_def)
  from b c d show ?thesis
    by (simp add: ex_fs_lookup)
qed

section \<open>Claims about trace file names\<close>

lemma digit_in: "digit d \<in> set ''0123456789''"
proof -
  have "nat (d mod 10) < 10" by simp
  then have "nat (d mod 10) < length ''0123456789''" by simp
  then show ?thesis unfolding digit_def by (rule nth_mem)
qed

lemma digit_inj:
  assumes "0 \<le> a" "a < 10" "0 \<le> b" "b < 10" "digit a = digit b"
  shows "a = b"
proof -
  have d: "distinct ''0123456789''" by simp
  have "nat a < length ''0123456789''" "nat b < length ''0123456789''"
    using assms by simp_all
  moreover have "''0123456789'' ! nat a = ''0123456789'' ! nat b"
    using assms by (simp add: digit_def)
  ultimately have "nat a = nat b"
    using d nth_eq_iff_index_eq by blast
  then show ?thesis using assms by simp
qed

lemma fmtInt_chars: "set (fmtInt n) \<subseteq> set ''0123456789''"
proof (induction n rule: fmtInt.induct)
  case (1 n)
  show ?case
  proof (cases "n < 10")
    case True
    then show ?thesis
      using digit_in [of n] by (subst fmtInt.simps) simp
  next
    case False
    then show ?thesis
      using "1.IH" digit_in [of "n mod 10"] by (subst fmtInt.simps) simp
  qed
qed

lemma fmtInt_not_Nil: "fmtInt n \<noteq> []"
  by (subst fmtInt.simps) simp

lemma fmtInt_inj:
  assumes "0 \<le> n" "0 \<le> m" "fmtInt n = fmtInt m"
  shows "n = m"
  using assms
proof (induction n arbitrary: m rule: fmtInt.induct)
  case (1 n)
  show ?case
  proof (cases "n < 10")
    case True
    have n: "fmtInt n = [digit n]"
      using True by (subst fmtInt.simps) simp
    show ?thesis
    proof (cases "m < 10")
      case m: True
      then have "fmtInt m = [digit m]"
        by (subst fmtInt.simps) simp
      then show ?thesis
        using n True m "1.prems" digit_inj by simp
    next
      case m: False
      then have "fmtInt m = fmtInt (m div 10) @ [digit (m mod 10)]"
        by (subst fmtInt.simps) simp
      then have "fmtInt (m div 10) = []"
        using n "1.prems"(3) by simp
      then show ?thesis
        using fmtInt_not_Nil by simp
    qed
  next
    case False
    have n: "fmtInt n = fmtInt (n div 10) @ [digit (n mod 10)]"
      using False by (subst fmtInt.simps) simp
    show ?thesis
    proof (cases "m < 10")
      case m: True
      then have "fmtInt m = [digit m]"
        by (subst fmtInt.simps) simp
      then have "fmtInt (n div 10) = []"
        using n "1.prems"(3) by simp
      then show ?thesis
        using fmtInt_not_Nil by simp
    next
      case m: False
      then have "fmtInt m = fmtInt (m div 10) @ [digit (m mod 10)]"
        by (subst fmtInt.simps) simp
      then have e: "fmtInt (n div 10) = fmtInt (m div 10)" "digit (n mod 10) = digit (m mod 10)"
        using n "1.prems"(3) by simp_all
      have "n div 10 = m div 10"
        using "1.IH" [OF False _ _ e(1)] "1.prems"(1,2) by simp
      moreover have "n mod 10 = m mod 10"
        using digit_inj [OF _ _ _ _ e(2)] by simp
      ultimately show ?thesis
        by (metis div_mult_mod_eq)
    qed
  qed
qed

lemma Itoa_no_underscore: "CHR ''_'' \<notin> set (Itoa i)"
proof -
  have "CHR ''_'' \<notin> set ''0123456789''" by simp
  then have "\<And>n. CHR ''_'' \<notin> set (fmtInt n)"
    using fmtInt_chars by blast
  then show ?thesis
    by (simp add: Itoa_def)
qed

lemma Itoa_inj:
  assumes "Itoa i = Itoa j"
  shows "i = j"
proof -
  have minus: "\<And>n. hd (fmtInt n) \<noteq> CHR ''-''"
  proof -
    fix n
    have "hd (fmtInt n) \<in> set (fmtInt n)"
      using fmtInt_not_Nil by simp
    then have "hd (fmtInt n) \<in> set ''0123456789''"
      using fmtInt_chars by blast
    then show "hd (fmtInt n) \<noteq> CHR ''-''" by auto
  qed
  consider "i < 0" "j < 0" | "i < 0" "0 \<le> j" | "0 \<le> i" "j < 0" | "0 \<le> i" "0 \<le> j"
    by linarith
  then show ?thesis
  proof cases
    case 1
    then have "fmtInt (- i) = fmtInt (- j)"
      using assms by (simp add: Itoa_def)
    then have "- i = - j"
      using 1 by (intro fmtInt_inj) simp_all
    then show ?thesis by simp
  next
    case 2
    then have "CHR ''-'' # fmtInt (- i) = fmtInt j"
      using assms by (simp add: Itoa_def)
    then have "hd (fmtInt j) = CHR ''-''"
      by (metis list.sel(1))
    then show ?thesis using minus by simp
  next
    case 3
    then have "fmtInt i = CHR ''-'' # fmtInt (- j)"
      using assms by (simp add: Itoa_def)
    then have "hd (fmtInt i) = CHR ''-''"
      by (metis list.sel(1))
    then show ?thesis using minus by simp
  next
    case 4
    then have "fmtInt i = fmtInt j"
      using assms by (simp add: Itoa_def)
    then show ?thesis
      using 4 by (intro fmtInt_inj)
  qed
qed

lemma takeWhile_until: "c \<notin> set xs \<Longrightarrow> takeWhile (\<lambda>x. x \<noteq> c) (xs @ c # ys) = xs"
  by (induction xs) auto

lemma split_at_first:
  assumes "xs @ c # ys = xs' @ c # ys'" and "c \<notin> set xs" and "c \<notin> set xs'"
  shows "xs = xs' \<and> ys = ys'"
proof -
  have "takeWhile (\<lambda>x. x \<noteq> c) (xs @ c # ys) = xs"
    using assms(2) by (rule takeWhile_until)
  moreover have "takeWhile (\<lambda>x. x \<noteq> c) (xs' @ c # ys') = xs'"
    using assms(3) by (rule takeWhile_until)
  ultimately have "xs = xs'"
    using assms(1) by simp
  then show ?thesis
    using assms(1) by simp
qed

lemma split_at_last:
  assumes "xs @ c # ys = xs' @ c # ys'" and "c \<notin> set ys" and "c \<notin> set ys'"
  shows "xs = xs' \<and> ys = ys'"
proof -
  have "rev (xs @ c # ys) = rev (xs' @ c # ys')"
    using assms(1) by simp
  then have "rev ys @ c # rev xs = rev ys' @ c # rev xs'"
    by simp
  moreover have "c \<notin> set (rev ys)" "c \<notin> set (rev ys')"
    using assms(2,3) by simp_all
  ultimately have "rev ys = rev ys' \<and> rev xs = rev xs'"
    by (rule split_at_first)
  then show ?thesis by simp
qed

lemma fmtInt_length:
  assumes "0 < k" and "n < 10 ^ k"
  shows "length (fmtInt n) \<le> k"
  using assms
proof (induction k arbitrary: n)
  case 0
  then show ?case by simp
next
  case (Suc k)
  show ?case
  proof (cases "n < 10")
    case True
    then show ?thesis by (subst fmtInt.simps) simp
  next
    case False
    have k: "0 < k"
    proof (rule ccontr)
      assume "\<not> 0 < k"
      then show False using Suc.prems(2) False by simp
    qed
    have "n < 10 * 10 ^ k"
      using Suc.prems(2) by simp
    then have "n div 10 < 10 ^ k"
      by linarith
    then have "length (fmtInt (n div 10)) \<le> k"
      using Suc.IH [OF k] by simp
    then show ?thesis
      using False by (subst fmtInt.simps) simp
  qed
qed

lemma appendInt_length:
  assumes "0 \<le> x" and "x < 10 ^ k" and "0 < k"
  shows "length (appendInt x k) = k"
proof -
  have "length (fmtInt \<bar>x\<bar>) \<le> k"
    using assms by (intro fmtInt_length) simp_all
  then show ?thesis
    using assms(1) by (simp add: appendInt_def Let_def)
qed

lemma Format_stamp_length:
  assumes "calendar ts"
  shows "length (Format_stamp ts) = 19"
proof -
  have "length (appendInt (year ts) 4) = 4"
    using assms by (intro appendInt_length) (simp_all add: calendar_def)
  moreover have "length (appendInt (month ts) 2) = 2" "length (appendInt (day ts) 2) = 2"
    "length (appendInt (hour ts) 2) = 2" "length (appendInt (minute ts) 2) = 2"
    "length (appendInt (second ts) 2) = 2"
    using assms by (auto intro!: appendInt_length simp add: calendar_def)
  ultimately show ?thesis
    by (simp add: Format_stamp_def)
qed

lemma fmtInt_hd: "0 < n \<Longrightarrow> hd (fmtInt n) \<noteq> CHR ''0''"
proof (induction n rule: fmtInt.induct)
  case (1 n)
  have zero: "digit 0 = CHR ''0''"
    by (simp add: digit_def)
  show ?case
  proof (cases "n < 10")
    case True
    have "digit n \<noteq> digit 0"
      using digit_inj [of n 0] True "1.prems" by auto
    then show ?thesis
      using True zero by (subst fmtInt.simps) simp
  next
    case False
    then have "hd (fmtInt (n div 10)) \<noteq> CHR ''0''"
      using "1.IH" by simp
    then show ?thesis
      using False fmtInt_not_Nil [of "n div 10"] by (subst fmtInt.simps) simp
  qed
qed

lemma dropWhile_zeros:
  "dropWhile (\<lambda>c. c = CHR ''0'') (replicate a CHR ''0'' @ s) = dropWhile (\<lambda>c. c = CHR ''0'') s"
  by (induction a) auto

lemma appendInt_significant:
  assumes "0 \<le> x"
  shows "dropWhile (\<lambda>c. c = CHR ''0'') (appendInt x k) = (if x = 0 then [] else fmtInt x)"
proof (cases "x = 0")
  case True
  have "fmtInt 0 = ''0''"
    by (subst fmtInt.simps) (simp add: digit_def)
  then show ?thesis
    using True by (simp add: appendInt_def Let_def dropWhile_zeros)
next
  case False
  then have "0 < x" using assms by simp
  then have "hd (fmtInt x) \<noteq> CHR ''0''"
    by (rule fmtInt_hd)
  then have "dropWhile (\<lambda>c. c = CHR ''0'') (fmtInt x) = fmtInt x"
    using fmtInt_not_Nil [of x] by (cases "fmtInt x") simp_all
  then show ?thesis
    using False assms by (simp add: appendInt_def Let_def dropWhile_zeros)
qed

lemma appendInt_inj:
  assumes "0 \<le> x" and "0 \<le> y" and "appendInt x k = appendInt y k"
  shows "x = y"
proof -
  have e: "(if x = 0 then [] else fmtInt x) = (if y = 0 then [] else fmtInt y)"
    using appendInt_significant [OF assms(1), of k] appendInt_significant [OF assms(2), of k]
      assms(3) by simp
  show ?thesis
  proof (cases "x = 0")
    case True
    show ?thesis
    proof (rule ccontr)
      assume "x \<noteq> y"
      then have "fmtInt y = []" using e True by simp
      then show False using fmtInt_not_Nil by simp
    qed
  next
    case False
    show ?thesis
    proof (cases "y = 0")
      case True
      then have "fmtInt x = []" using e False by simp
      then show ?thesis using fmtInt_not_Nil by simp
    next
      case y: False
      then have "fmtInt x = fmtInt y" using e False by simp
      then show ?thesis by (rule fmtInt_inj [OF assms(1,2)])
    qed
  qed
qed

lemma Format_stamp_inj:
  assumes "calendar ts" and "calendar ts'"
  shows "Format_stamp ts = Format_stamp ts' \<longleftrightarrow>
           year ts = year ts' \<and> month ts = month ts' \<and> day ts = day ts'
           \<and> hour ts = hour ts' \<and> minute ts = minute ts' \<and> second ts = second ts'"
proof
  assume eq: "Format_stamp ts = Format_stamp ts'"
  have len: "\<And>u. calendar u \<Longrightarrow>
               length (appendInt (year u) 4) = 4 \<and> length (appendInt (month u) 2) = 2
               \<and> length (appendInt (day u) 2) = 2 \<and> length (appendInt (hour u) 2) = 2
               \<and> length (appendInt (minute u) 2) = 2 \<and> length (appendInt (second u) 2) = 2"
    by (auto intro!: appendInt_length simp add: calendar_def)
  note l = len [OF assms(1)] len [OF assms(2)]
  have "appendInt (year ts) 4 = appendInt (year ts') 4
        \<and> appendInt (month ts) 2 = appendInt (month ts') 2
        \<and> appendInt (day ts) 2 = appendInt (day ts') 2
        \<and> appendInt (hour ts) 2 = appendInt (hour ts') 2
        \<and> appendInt (minute ts) 2 = appendInt (minute ts') 2
        \<and> appendInt (second ts) 2 = appendInt (second ts') 2"
    using eq l by (simp add: Format_stamp_def)
  then show "year ts = year ts' \<and> month ts = month ts' \<and> day ts = day ts'
           \<and> hour ts = hour ts' \<and> minute ts = minute ts' \<and> second ts = second ts'"
    using assms by (auto simp add: calendar_def intro: appendInt_inj)
next
  assume "year ts = year ts' \<and> month ts = month ts' \<and> day ts = day ts'
           \<and> hour ts = hour ts' \<and> minute ts = minute ts' \<and> second ts = second ts'"
  then show "Format_stamp ts = Format_stamp ts'"
    by (simp add: Format_stamp_def)
qed

lemma mtrFilename_eq_iff:
  assumes "length (Format_stamp ts) = length (Format_stamp ts')"
      and "CHR ''_'' \<notin> set (IPVersion t)" and "CHR ''_'' \<notin> set (IPVersion t')"
  shows "mtrFilename ts t = mtrFilename ts' t' \<longleftrightarrow>
           Format_stamp ts = Format_stamp ts'
           \<and> (if Name t = '''' then ''target'' else Name t)
               = (if Name t' = '''' then ''target'' else Name t')
           \<and> IPVersion t = IPVersion t' \<and> Port t = Port t'"
proof
  let ?n = "if Name t = '''' then ''target'' else Name t"
  let ?n' = "if Name t' = '''' then ''target'' else Name t'"
  assume eq: "mtrFilename ts t = mtrFilename ts' t'"
  have f: "\<And>s u. mtrFilename s u
             = (Format_stamp s @ CHR ''_'' # (if Name u = '''' then ''target'' else Name u)
                  @ CHR ''_'' # IPVersion u)
               @ CHR ''_'' # (Itoa (Port u) @ ''.txt'')"
    by (simp add: mtrFilename_def Let_def)
  have tail: "\<And>u. CHR ''_'' \<notin> set (Itoa (Port u) @ ''.txt'')"
    using Itoa_no_underscore by simp
  have s1: "Format_stamp ts @ CHR ''_'' # ?n @ CHR ''_'' # IPVersion t
              = Format_stamp ts' @ CHR ''_'' # ?n' @ CHR ''_'' # IPVersion t'"
       "Itoa (Port t) @ ''.txt'' = Itoa (Port t') @ ''.txt''"
    using split_at_last [OF eq [unfolded f] tail tail] by simp_all
  have port: "Port t = Port t'"
    using s1(2) Itoa_inj by simp
  have "(Format_stamp ts @ CHR ''_'' # ?n) @ CHR ''_'' # IPVersion t
          = (Format_stamp ts' @ CHR ''_'' # ?n') @ CHR ''_'' # IPVersion t'"
    using s1(1) by simp
  from split_at_last [OF this assms(2,3)]
  have s2: "Format_stamp ts @ CHR ''_'' # ?n = Format_stamp ts' @ CHR ''_'' # ?n'"
       "IPVersion t = IPVersion t'"
    by simp_all
  have "Format_stamp ts = Format_stamp ts' \<and> CHR ''_'' # ?n = CHR ''_'' # ?n'"
    using s2(1) by (simp add: assms(1))
  then show "Format_stamp ts = Format_stamp ts' \<and> ?n = ?n'
               \<and> IPVersion t = IPVersion t' \<and> Port t = Port t'"
    using s2(2) port by simp
next
  assume "Format_stamp ts = Format_stamp ts'
           \<and> (if Name t = '''' then ''target'' else Name t)
               = (if Name t' = '''' then ''target'' else Name t')
           \<and> IPVersion t = IPVersion t' \<and> Port t = Port t'"
  then show "mtrFilename ts t = mtrFilename ts' t'"
    by (simp add: mtrFilename_def Let_def)
qed

lemma targetStates_IPVersion:
  "s \<in> set (targetStates tcs) \<Longrightarrow> IPVersion s \<in> {''IPv4'', ''IPv6''}"
  by (induction tcs) (auto simp add: newTargetState_def split: if_splits)

text \<open>
  C7 (as amended).  The trace file name is a function of the wall-clock second of the
  timestamp (its date and time of day in the monitor's time zone), the target name (an
  empty name counting as \<^verbatim>\<open>target\<close>), the address family tag and the port, and of
  nothing else in the state: not of the address.  For readings of the calendar with a
  four-digit year and the family tags that main assigns (\<^verbatim>\<open>IPv4\<close>, \<^verbatim>\<open>IPv6\<close>), two
  incidents get the same file name exactly when they agree on these four components.
\<close>

theorem mtrFilename_collisions:
  assumes "calendar ts" and "calendar ts'"
      and "IPVersion t \<in> {''IPv4'', ''IPv6''}" and "IPVersion t' \<in> {''IPv4'', ''IPv6''}"
  shows "(mtrFilename ts t = mtrFilename ts' t' \<longleftrightarrow>
            (year ts = year ts' \<and> month ts = month ts' \<and> day ts = day ts'
             \<and> hour ts = hour ts' \<and> minute ts = minute ts' \<and> second ts = second ts')
            \<and> (if Name t = '''' then ''target'' else Name t)
                = (if Name t' = '''' then ''target'' else Name t')
            \<and> IPVersion t = IPVersion t' \<and> Port t = Port t')
       \<and> mtrFilename ts (t\<lparr>IP := ip, Network := nw, Down := d, DownSince := ds\<rparr>)
           = mtrFilename ts t
       \<and> (\<forall>s\<in>set (targetStates tcs). IPVersion s \<in> {''IPv4'', ''IPv6''})"
proof (intro conjI ballI)
  have l: "length (Format_stamp ts) = length (Format_stamp ts')"
    using assms(1,2) by (simp add: Format_stamp_length)
  have u: "CHR ''_'' \<notin> set (IPVersion t)" "CHR ''_'' \<notin> set (IPVersion t')"
    using assms(3,4) by auto
  show "mtrFilename ts t = mtrFilename ts' t' \<longleftrightarrow>
            (year ts = year ts' \<and> month ts = month ts' \<and> day ts = day ts'
             \<and> hour ts = hour ts' \<and> minute ts = minute ts' \<and> second ts = second ts')
            \<and> (if Name t = '''' then ''target'' else Name t)
                = (if Name t' = '''' then ''target'' else Name t')
            \<and> IPVersion t = IPVersion t' \<and> Port t = Port t'"
    unfolding mtrFilename_eq_iff [OF l u] Format_stamp_inj [OF assms(1,2)] ..
next
  show "mtrFilename ts (t\<lparr>IP := ip, Network := nw, Down := d, DownSince := ds\<rparr>)
           = mtrFilename ts t"
    by (simp add: mtrFilename_def)
next
  fix s
  assume "s \<in> set (targetStates tcs)"
  then show "IPVersion s \<in> {''IPv4'', ''IPv6''}"
    by (rule targetStates_IPVersion)
qed

lemma ex_stamps:
  "Format_stamp ex_clock = ''2025-03-09_04-05-06''"
  "Format_stamp ex_later = ''2025-03-09_04-06-07''"
  by (code_simp, code_simp)

theorem mtrFilename_collisions_witness:
  "mtrFilename ex_clock ex_up = mtrFilename ex_clock ex_twin
   \<and> mtrFilename ex_clock ex_up \<noteq> mtrFilename ex_later ex_up
   \<and> mtrFilename ex_clock ex_up \<noteq> mtrFilename ex_clock (ex_up\<lparr>IPVersion := ''IPv6''\<rparr>)"
proof -
  have c: "calendar ex_clock" "calendar ex_later"
    by (simp_all add: calendar_def ex_clock_def ex_later_def)
  have v: "IPVersion ex_up \<in> {''IPv4'', ''IPv6''}" "IPVersion ex_twin \<in> {''IPv4'', ''IPv6''}"
    "IPVersion (ex_up\<lparr>IPVersion := ''IPv6''\<rparr>) \<in> {''IPv4'', ''IPv6''}"
    by (simp_all add: ex_up_def ex_twin_def newTargetState_def)
  have f: "Name ex_up = ''web''" "Name ex_twin = ''web''" "Port ex_up = 443"
    "Port ex_twin = 443" "IPVersion ex_up = ''IPv4''" "IPVersion ex_twin = ''IPv4''"
    by (simp_all add: ex_up_def ex_twin_def newTargetState_def)
  have m: "minute ex_clock \<noteq> minute ex_later"
    by (simp add: ex_clock_def ex_later_def)
  from mtrFilename_collisions [OF c(1) c(1) v(1) v(2), THEN conjunct1]
  have a: "mtrFilename ex_clock ex_up = mtrFilename ex_clock ex_twin"
    by (simp add: f)
  from mtrFilename_collisions [OF c(1) c(2) v(1) v(1), THEN conjunct1]
  have b: "mtrFilename ex_clock ex_up \<noteq> mtrFilename ex_later ex_up"
    by (simp add: m)
  from mtrFilename_collisions [OF c(1) c(1) v(1) v(3), THEN conjunct1]
  have d: "mtrFilename ex_clock ex_up \<noteq> mtrFilename ex_clock (ex_up\<lparr>IPVersion := ''IPv6''\<rparr>)"
    by (simp add: f)
  from a b d show ?thesis by (intro conjI)
qed

text \<open>
  C7 as stated fails: two entries of the targets list with the same name and port and
  different IPv4 addresses are distinct targets, and their incidents within the same
  second get the same trace file name.
\<close>

theorem distinct_targets_same_filename_counterexample:
  "targetStates ex_twins = [ex_up, ex_twin]
   \<and> IP ex_up = ''10.0.0.1'' \<and> IP ex_twin = ''10.0.0.2''
   \<and> mtrFilename ex_clock ex_up = ''2025-03-09_04-05-06_web_IPv4_443.txt''
   \<and> mtrFilename ex_clock ex_twin = ''2025-03-09_04-05-06_web_IPv4_443.txt''"
proof -
  have a: "targetStates ex_twins = [ex_up, ex_twin]"
    by (simp add: ex_twins_def ex_up_def ex_twin_def)
  have b: "IP ex_up = ''10.0.0.1''" "IP ex_twin = ''10.0.0.2''"
    by (simp_all add: ex_up_def ex_twin_def newTargetState_def)
  have i: "Itoa 443 = ''443''"
    by code_simp
  have c: "mtrFilename ex_clock ex_up = ''2025-03-09_04-05-06_web_IPv4_443.txt''"
    "mtrFilename ex_clock ex_twin = ''2025-03-09_04-05-06_web_IPv4_443.txt''"
    by (simp_all add: mtrFilename_def ex_stamps i ex_up_def ex_twin_def newTargetState_def)
  from a b c show ?thesis by (intro conjI)
qed

end
